theory Spec2Isabelle
  imports Main
begin

section \<open>Values, errors and results\<close>

text \<open>
  A shallow embedding of \<^verbatim>\<open>pkg/assembler/backends/ent/backend/source.go\<close>: the
  HasSourceAt and SourceName part of the ent backend.  A UUID is represented by its
  canonical text, so \<^verbatim>\<open>id.String()\<close> is the identity; a \<^verbatim>\<open>time.Time\<close> is the instant
  it denotes, so \<^verbatim>\<open>.UTC()\<close> is the identity as well.
\<close>

type_synonym uuid = string
type_synonym time = int

text \<open>
  A Go function of the backend ends in one of three ways: it returns a value, it returns
  an error, or it panics.  A panic is not an error value: \<^verbatim>\<open>if err != nil\<close> never sees
  it, so it is never wrapped and travels up to the caller unchanged.
\<close>

datatype panic = NilPointerDereference | IndexOutOfRange | ChunkSizeNotPositive

datatype error =
    ErrNoRows
  | NotFoundError
  | NotSingularError
  | UUIDParseError
  | StorageFailure string
  | Errorf string
  | Wrap string error

datatype 'a result = Ok 'a | Err error | Panic panic

text \<open>
  Modelled from the spec: \<^verbatim>\<open>toGlobalID\<close> and \<^verbatim>\<open>fromGlobalID\<close> are helpers of
  the backend that are declared outside \<^verbatim>\<open>source.go\<close>.  Every externally visible identifier
  encodes both a type tag and an opaque local identifier, and is reversible; the encoded
  identifier is therefore kept as the pair it decodes to.
\<close>

datatype gid = GlobalID (gid_nodeType: string) (gid_id: string)

definition toGlobalID :: "string \<Rightarrow> string \<Rightarrow> gid" where
  "toGlobalID nodeType ident = GlobalID nodeType ident"

definition fromGlobalID :: "gid \<Rightarrow> gid" where
  "fromGlobalID g = g"

definition srcTypeString :: string where
  "srcTypeString = ''srcType''"

definition srcNamespaceString :: string where
  "srcNamespaceString = ''srcNamespace''"

text \<open>The table names \<^verbatim>\<open>sourcename.Table\<close> and \<^verbatim>\<open>hassourceat.Table\<close> of the generated code.\<close>

definition sourcename_Table :: string where
  "sourcename_Table = ''source_names''"

definition hassourceat_Table :: string where
  "hassourceat_Table = ''has_source_ats''"

section \<open>Inputs of the GraphQL model\<close>

record SourceInputSpec =
  si_Type :: string
  si_Namespace :: string
  si_Name :: string
  si_Tag :: "string option"
  si_Commit :: "string option"

record IDorSourceInput =
  SourceNameID :: "gid option"
  SourceInput :: "SourceInputSpec option"

record SourceIDs =
  ids_SourceTypeID :: gid
  ids_SourceNamespaceID :: gid
  ids_SourceNameID :: gid

text \<open>
  The schema's \<^verbatim>\<open>PkgMatchType\<close> enum and its wrapper \<^verbatim>\<open>MatchFlags\<close>.
\<close>

datatype PkgMatchType = PkgMatchTypeAllVersions | PkgMatchTypeSpecificVersion

record MatchFlags =
  Pkg :: PkgMatchType

text \<open>
  Modelled from the spec: the package input and the package filter are types of the
  generated GraphQL model that \<^verbatim>\<open>source.go\<close> only passes on.  A PackageName is
  (type, namespace, name); a PackageVersion adds (version, qualifiers, subpath); a filter
  leaves every field optional.
\<close>

record PkgInputSpec =
  pi_Type :: string
  pi_Namespace :: "string option"
  pi_Name :: string
  pi_Version :: "string option"
  pi_Qualifiers :: "(string \<times> string) list"
  pi_Subpath :: "string option"

record PkgSpec =
  ps_ID :: "gid option"
  ps_Type :: "string option"
  ps_Namespace :: "string option"
  ps_Name :: "string option"
  ps_Version :: "string option"
  ps_Subpath :: "string option"

record IDorPkgInput =
  PackageNameID :: "gid option"
  PackageVersionID :: "gid option"
  PackageInput :: "PkgInputSpec option"

record HasSourceAtInputSpec =
  hi_KnownSince :: time
  hi_Justification :: string
  hi_Origin :: string
  hi_Collector :: string
  hi_DocumentRef :: string

record SourceSpec =
  ss_ID :: "gid option"
  ss_Type :: "string option"
  ss_Namespace :: "string option"
  ss_Name :: "string option"
  ss_Tag :: "string option"
  ss_Commit :: "string option"

record HasSourceAtSpec =
  hf_ID :: "gid option"
  hf_Package :: "PkgSpec option"
  hf_Source :: "SourceSpec option"
  hf_KnownSince :: "time option"
  hf_Justification :: "string option"
  hf_Origin :: "string option"
  hf_Collector :: "string option"
  hf_DocumentRef :: "string option"

text \<open>The edge kinds \<^verbatim>\<open>source.go\<close> consults in an \<^verbatim>\<open>edgeMap\<close>.\<close>

datatype Edge =
    EdgeHasSourceAtPackage
  | EdgeHasSourceAtSource
  | EdgeSourceTypeSourceNamespace
  | EdgeSourceNamespaceSourceName
  | EdgeSourceNamespaceSourceType
  | EdgeSourceNameSourceNamespace
  | EdgeSourceHasSourceAt
  | EdgeSourceCertifyScorecard
  | EdgeSourceIsOccurrence
  | EdgeSourceCertifyBad
  | EdgeSourceCertifyGood
  | EdgeSourceHasMetadata
  | EdgeSourcePointOfContact
  | EdgeSourceCertifyLegal

type_synonym edgeMap = "Edge \<Rightarrow> bool"

section \<open>The storage layer\<close>

text \<open>A row of the \<^verbatim>\<open>source_names\<close> table.\<close>

record ent_SourceName =
  sn_ID :: uuid
  sn_Type :: string
  sn_Namespace :: string
  sn_Name :: string
  sn_Tag :: string
  sn_Commit :: string

text \<open>
  Package names and package versions as ent hands them out: the columns, and the edges a
  query was asked to load (\<open>Edges.Versions\<close>, \<open>Edges.Name\<close>).  The tables store them
  with no edge loaded.
\<close>

datatype ent_PackageName =
  PackageNameEnt (pn_ID: uuid) (pn_Type: string) (pn_Namespace: string) (pn_Name: string)
    (pn_Edges_Versions: "ent_PackageVersion list")
and ent_PackageVersion =
  PackageVersionEnt (pv_ID: uuid) (pv_NameID: uuid) (pv_Version: string) (pv_Subpath: string)
    (pv_Qualifiers: "(string \<times> string) list") (pv_Edges_Name: "ent_PackageName option")

text \<open>
  What a \<^verbatim>\<open>HasSourceAtCreate\<close> builder holds once its setters have run, and the row it
  becomes: \<open>c_AllVersionsID\<close> is the column \<^verbatim>\<open>package_name_id\<close>, \<open>c_PackageVersionID\<close>
  the column \<^verbatim>\<open>package_version_id\<close>; both are nullable.
\<close>

record HasSourceAtCreate =
  c_Collector :: string
  c_Origin :: string
  c_DocumentRef :: string
  c_Justification :: string
  c_KnownSince :: time
  c_SourceID :: uuid
  c_AllVersionsID :: "uuid option"
  c_PackageVersionID :: "uuid option"

record HasSourceAtRow = HasSourceAtCreate +
  hs_ID :: uuid

text \<open>A HasSourceAt entity as a query returns it: the row and the edges that were loaded.\<close>

record ent_HasSourceAt = HasSourceAtRow +
  hs_Edges_PackageVersion :: "ent_PackageVersion option"
  hs_Edges_AllVersions :: "ent_PackageName option"
  hs_Edges_Source :: "ent_SourceName option"

text \<open>
  The other evidence a source name is linked to.  A certification carries its type; of
  the remaining kinds only the link matters here.
\<close>

datatype CertificationType = TypeGOOD | TypeBAD

record ent_Certification =
  cert_ID :: uuid
  cert_SourceID :: "uuid option"
  cert_Type :: CertificationType
  cert_Justification :: string

record ent_Evidence =
  ev_ID :: uuid
  ev_SourceID :: "uuid option"

record ent_SourceName_Edges = ent_SourceName +
  sn_Edges_HasSourceAt :: "ent_HasSourceAt list"
  sn_Edges_Scorecard :: "ent_Evidence list"
  sn_Edges_Occurrences :: "ent_Evidence list"
  sn_Edges_Certification :: "ent_Certification list"
  sn_Edges_Metadata :: "ent_Evidence list"
  sn_Edges_Poc :: "ent_Evidence list"
  sn_Edges_CertifyLegal :: "ent_Evidence list"

text \<open>
  The store the backend talks to.  \<open>unavailable\<close> stands for every failure of the storage
  layer that has nothing to do with the statement sent (connectivity loss, cancellation):
  while it is set, every statement returns a storage failure and changes nothing.
\<close>

record db =
  sourceNames :: "ent_SourceName list"
  packageNames :: "ent_PackageName list"
  packageVersions :: "ent_PackageVersion list"
  hasSourceAts :: "HasSourceAtRow list"
  certifications :: "ent_Certification list"
  scorecards :: "ent_Evidence list"
  occurrences :: "ent_Evidence list"
  hasMetadata :: "ent_Evidence list"
  pointsOfContact :: "ent_Evidence list"
  certifyLegals :: "ent_Evidence list"
  unavailable :: bool

text \<open>
  The conflict target of both SourceName writes:
  \<^verbatim>\<open>sql.ConflictColumns(FieldType, FieldNamespace, FieldName, FieldTag, FieldCommit)\<close>.
\<close>

definition sourceNameConflict :: "ent_SourceName \<Rightarrow> ent_SourceName \<Rightarrow> bool" where
  "sourceNameConflict r x =
     (sn_Type x = sn_Type r \<and> sn_Namespace x = sn_Namespace r \<and> sn_Name x = sn_Name r
      \<and> sn_Tag x = sn_Tag r \<and> sn_Commit x = sn_Commit r)"

datatype insert_outcome = Inserted | Ignored | Failed error

text \<open>
  One row sent with \<^verbatim>\<open>ON CONFLICT (type, namespace, name, tag, commit) DO NOTHING\<close>:
  a row with the same natural key makes the insert a no-op; otherwise the primary key
  (set by \<^verbatim>\<open>SetID\<close>) must be new, a duplicate being a constraint violation that the
  conflict clause does not cover; otherwise the row is stored.
\<close>

definition insertSourceName :: "db \<Rightarrow> ent_SourceName \<Rightarrow> insert_outcome \<times> db" where
  "insertSourceName d r =
     (if unavailable d then (Failed (StorageFailure ''storage unavailable''), d)
      else if list_ex (sourceNameConflict r) (sourceNames d) then (Ignored, d)
      else if list_ex (\<lambda>x. sn_ID x = sn_ID r) (sourceNames d)
        then (Failed (StorageFailure ''duplicate key value violates unique constraint''), d)
      else (Inserted, d\<lparr>sourceNames := sourceNames d @ [r]\<rparr>))"

text \<open>
  \<^verbatim>\<open>Create().OnConflict(...).DoNothing().Exec(ctx)\<close>: a single insert whose conflict left
  no row to return reports \<^verbatim>\<open>sql.ErrNoRows\<close>.
\<close>

definition execCreateSourceName :: "db \<Rightarrow> ent_SourceName \<Rightarrow> error option \<times> db" where
  "execCreateSourceName d r =
     (case insertSourceName d r of
        (Inserted, d') \<Rightarrow> (None, d')
      | (Ignored, d') \<Rightarrow> (Some ErrNoRows, d')
      | (Failed e, d') \<Rightarrow> (Some e, d'))"

text \<open>
  \<^verbatim>\<open>CreateBulk(...).OnConflict(...).DoNothing().Exec(ctx)\<close>: one multi-row statement.
  Rows that conflict are skipped without an error; a failure of any row fails the whole
  statement, which then stores nothing.  A bulk of no builders sends no statement.
\<close>

fun insertAllSourceNames :: "db \<Rightarrow> ent_SourceName list \<Rightarrow> error + db" where
  "insertAllSourceNames d [] = Inr d"
| "insertAllSourceNames d (r # rs) =
     (case insertSourceName d r of
        (Failed e, _) \<Rightarrow> Inl e
      | (_, d') \<Rightarrow> insertAllSourceNames d' rs)"

definition execCreateBulkSourceNames :: "db \<Rightarrow> ent_SourceName list \<Rightarrow> error option \<times> db" where
  "execCreateBulkSourceNames d rs =
     (if rs = [] then (None, d)
      else (case insertAllSourceNames d rs of
              Inl e \<Rightarrow> (Some e, d)
            | Inr d' \<Rightarrow> (None, d')))"

text \<open>
  Modelled from the spec: \<^verbatim>\<open>WithinTX\<close> is declared outside \<^verbatim>\<open>source.go\<close>.  Every logical
  write executes inside an atomic scope: all statements inside it commit together or none
  do.  A panic unwinds through the scope, which rolls back as well.
\<close>

definition WithinTX :: "db \<Rightarrow> (db \<Rightarrow> 'a result \<times> db) \<Rightarrow> 'a result \<times> db" where
  "WithinTX d exec =
     (case exec d of
        (Ok r, d') \<Rightarrow> (Ok r, d')
      | (Err e, _) \<Rightarrow> (Err e, d)
      | (Panic p, _) \<Rightarrow> (Panic p, d))"

section \<open>What \<^verbatim>\<open>source.go\<close> takes from elsewhere\<close>

text \<open>
  Constants and helpers that \<^verbatim>\<open>source.go\<close> uses and that are declared elsewhere are
  parameters of the model: the batch and page sizes, the natural-key string of a source
  (\<^verbatim>\<open>helpers.SrcServerKey\<close>, field \<^verbatim>\<open>NameId\<close>), the hash that turns it into an identifier
  (\<^verbatim>\<open>generateUUIDKey\<close>), the parser of the uuid library, the two package lookups
  (\<^verbatim>\<open>getPkgName\<close> and \<^verbatim>\<open>getPkgVersion\<close>, reduced to the error they return or the
  identifier the caller reads off their result), the identifier predicate \<^verbatim>\<open>IDEQ\<close>, and the package predicates of a filter
  (\<open>packageNameQuery\<close> stands for \<^verbatim>\<open>packageNameQuery(pkgNameQueryFromPkgSpec(...))\<close>).
\<close>

record env =
  MaxBatchSize :: nat
  MaxPageSize :: nat
  SrcServerKey_NameId :: "SourceInputSpec \<Rightarrow> string"
  generateUUIDKey :: "string \<Rightarrow> uuid"
  uuid_Parse :: "string \<Rightarrow> uuid option"
  getPkgName :: "db \<Rightarrow> PkgInputSpec \<Rightarrow> error + uuid"
  getPkgVersion :: "db \<Rightarrow> PkgInputSpec \<Rightarrow> error + uuid"
  IDEQ :: "gid \<Rightarrow> uuid \<Rightarrow> bool"
  packageNameQuery :: "PkgSpec \<Rightarrow> db \<Rightarrow> ent_PackageName \<Rightarrow> bool"
  packageVersionQuery :: "PkgSpec \<Rightarrow> db \<Rightarrow> ent_PackageVersion \<Rightarrow> bool"

text \<open>
  Modelled from the spec: \<^verbatim>\<open>chunk\<close> is declared outside \<^verbatim>\<open>source.go\<close>.  A request is
  partitioned into fixed-size chunks of the configured maximum batch size; chunk boundaries
  are purely size-based.  A size that is not positive partitions nothing and is a panic.
\<close>

function chunks_of :: "nat \<Rightarrow> 'a list \<Rightarrow> 'a list list" where
  "chunks_of n xs =
     (if n = 0 \<or> xs = [] then [] else take n xs # chunks_of n (drop n xs))"
  by pat_completeness auto
termination
  by (relation "measure (\<lambda>(n, xs). length xs)") auto

declare chunks_of.simps [simp del]

definition chunk :: "'a list \<Rightarrow> nat \<Rightarrow> 'a list list result" where
  "chunk collection n =
     (if n = 0 then Panic ChunkSizeNotPositive else Ok (chunks_of n collection))"

text \<open>
  Modelled from the spec: \<^verbatim>\<open>stringOrEmpty\<close> is declared outside \<^verbatim>\<open>source.go\<close>.  The
  natural key of a SourceName is (type, namespace, name, tag, commit) with tag and commit
  plain strings; an absent one is stored as the empty string.
\<close>

definition stringOrEmpty :: "string option \<Rightarrow> string" where
  "stringOrEmpty s = (case s of None \<Rightarrow> [] | Some v \<Rightarrow> v)"

section \<open>Ingesting sources\<close>

text \<open>
  \<^verbatim>\<open>generateSourceNameCreate\<close> reads the fields of \<^verbatim>\<open>srcInput.SourceInput\<close>, a pointer:
  an input without an embedded record is a nil dereference.
\<close>

definition generateSourceNameCreate :: "uuid \<Rightarrow> IDorSourceInput \<Rightarrow> ent_SourceName result" where
  "generateSourceNameCreate srcNameID srcInput =
     (case SourceInput srcInput of
        None \<Rightarrow> Panic NilPointerDereference
      | Some s \<Rightarrow>
          Ok \<lparr> sn_ID = srcNameID, sn_Type = si_Type s, sn_Namespace = si_Namespace s,
               sn_Name = si_Name s, sn_Tag = stringOrEmpty (si_Tag s),
               sn_Commit = stringOrEmpty (si_Commit s) \<rparr>)"

definition sourceIDsOf :: "uuid \<Rightarrow> SourceIDs" where
  "sourceIDsOf srcNameID =
     \<lparr> ids_SourceTypeID = toGlobalID srcTypeString srcNameID,
       ids_SourceNamespaceID = toGlobalID srcNamespaceString srcNameID,
       ids_SourceNameID = toGlobalID sourcename_Table srcNameID \<rparr>"

text \<open>
  \<^verbatim>\<open>upsertSource\<close>.  The key helper receives the pointer \<^verbatim>\<open>src.SourceInput\<close>; whatever it
  does with nil, the builder dereferences it before anything is sent, so a missing record
  is a panic and no statement runs.
\<close>

definition upsertSource :: "env \<Rightarrow> db \<Rightarrow> IDorSourceInput \<Rightarrow> SourceIDs result \<times> db" where
  "upsertSource E tx src =
     (case SourceInput src of
        None \<Rightarrow> (Panic NilPointerDereference, tx)
      | Some s \<Rightarrow>
          (let srcNameID = generateUUIDKey E (SrcServerKey_NameId E s) in
           case generateSourceNameCreate srcNameID src of
             Panic p \<Rightarrow> (Panic p, tx)
           | Err e \<Rightarrow> (Err e, tx)
           | Ok create \<Rightarrow>
               (case execCreateSourceName tx create of
                  (Some err, tx') \<Rightarrow>
                    (if err \<noteq> ErrNoRows then (Err (Wrap ''upsert source name'' err), tx')
                     else (Ok (sourceIDsOf srcNameID), tx'))
                | (None, tx') \<Rightarrow> (Ok (sourceIDsOf srcNameID), tx'))))"

definition IngestSource :: "env \<Rightarrow> db \<Rightarrow> IDorSourceInput \<Rightarrow> SourceIDs result \<times> db" where
  "IngestSource E b source = WithinTX b (\<lambda>tx. upsertSource E tx source)"

text \<open>
  The inner loop of \<^verbatim>\<open>upsertBulkSource\<close> over one batch: a builder and an identifier
  per input, in input order.  The inputs are pointers; a nil input, or one without an
  embedded record, is a nil dereference.
\<close>

fun sourceNameCreates ::
  "env \<Rightarrow> IDorSourceInput option list \<Rightarrow> (ent_SourceName list \<times> uuid list) result" where
  "sourceNameCreates E [] = Ok ([], [])"
| "sourceNameCreates E (src # srcs) =
     (case src of
        None \<Rightarrow> Panic NilPointerDereference
      | Some s \<Rightarrow>
          (case SourceInput s of
             None \<Rightarrow> Panic NilPointerDereference
           | Some spec \<Rightarrow>
               (let srcNameID = generateUUIDKey E (SrcServerKey_NameId E spec) in
                case generateSourceNameCreate srcNameID s of
                  Panic p \<Rightarrow> Panic p
                | Err e \<Rightarrow> Err e
                | Ok create \<Rightarrow>
                    (case sourceNameCreates E srcs of
                       Panic p \<Rightarrow> Panic p
                     | Err e \<Rightarrow> Err e
                     | Ok (creates, srcNameIDs) \<Rightarrow>
                         Ok (create # creates, srcNameID # srcNameIDs)))))"

text \<open>The outer loop over the batches; \<open>srcNameIDs\<close> is the slice the loop appends to.\<close>

fun upsertBulkSource_batches ::
  "env \<Rightarrow> db \<Rightarrow> IDorSourceInput option list list \<Rightarrow> uuid list \<Rightarrow> uuid list result \<times> db" where
  "upsertBulkSource_batches E tx [] srcNameIDs = (Ok srcNameIDs, tx)"
| "upsertBulkSource_batches E tx (srcs # batches) srcNameIDs =
     (case sourceNameCreates E srcs of
        Panic p \<Rightarrow> (Panic p, tx)
      | Err e \<Rightarrow> (Err e, tx)
      | Ok (srcNameCreates, newIDs) \<Rightarrow>
          (case execCreateBulkSourceNames tx srcNameCreates of
             (Some err, tx') \<Rightarrow> (Err (Wrap ''bulk upsert source name node'' err), tx')
           | (None, tx') \<Rightarrow> upsertBulkSource_batches E tx' batches (srcNameIDs @ newIDs)))"

definition upsertBulkSource ::
  "env \<Rightarrow> db \<Rightarrow> IDorSourceInput option list \<Rightarrow> SourceIDs list result \<times> db" where
  "upsertBulkSource E tx srcInputs =
     (case chunk srcInputs (MaxBatchSize E) of
        Panic p \<Rightarrow> (Panic p, tx)
      | Err e \<Rightarrow> (Err e, tx)
      | Ok batches \<Rightarrow>
          (case upsertBulkSource_batches E tx batches [] of
             (Panic p, tx') \<Rightarrow> (Panic p, tx')
           | (Err e, tx') \<Rightarrow> (Err e, tx')
           | (Ok srcNameIDs, tx') \<Rightarrow> (Ok (map sourceIDsOf srcNameIDs), tx')))"

definition IngestSources ::
  "env \<Rightarrow> db \<Rightarrow> IDorSourceInput option list \<Rightarrow> SourceIDs list result \<times> db" where
  "IngestSources E b sources =
     (case WithinTX b (\<lambda>tx. upsertBulkSource E tx sources) of
        (Err txErr, b') \<Rightarrow> (Err (Wrap ''IngestSources'' txErr), b')
      | (Panic p, b') \<Rightarrow> (Panic p, b')
      | (Ok ids, b') \<Rightarrow> (Ok ids, b'))"

text \<open>
  The reference the bulk path is compared with: one single upsert per input, in input
  order, each on the store the previous one left.
\<close>

fun upsertSourceEach ::
  "env \<Rightarrow> db \<Rightarrow> IDorSourceInput list \<Rightarrow> SourceIDs result list \<times> db" where
  "upsertSourceEach E b [] = ([], b)"
| "upsertSourceEach E b (src # srcs) =
     (case upsertSource E b src of
        (r, b') \<Rightarrow> (case upsertSourceEach E b' srcs of (rs, b'') \<Rightarrow> (r # rs, b'')))"

text \<open>The same for the public entry point, one transaction per call.\<close>

fun IngestSourceEach ::
  "env \<Rightarrow> db \<Rightarrow> IDorSourceInput list \<Rightarrow> SourceIDs result list \<times> db" where
  "IngestSourceEach E b [] = ([], b)"
| "IngestSourceEach E b (src # srcs) =
     (case IngestSource E b src of
        (r, b') \<Rightarrow> (case IngestSourceEach E b' srcs of (rs, b'') \<Rightarrow> (r # rs, b'')))"

text \<open>The row \<^verbatim>\<open>generateSourceNameCreate\<close> builds for a record.\<close>

definition sourceNameRow :: "env \<Rightarrow> SourceInputSpec \<Rightarrow> ent_SourceName" where
  "sourceNameRow E s =
     \<lparr> sn_ID = generateUUIDKey E (SrcServerKey_NameId E s), sn_Type = si_Type s,
       sn_Namespace = si_Namespace s, sn_Name = si_Name s, sn_Tag = stringOrEmpty (si_Tag s),
       sn_Commit = stringOrEmpty (si_Commit s) \<rparr>"

text \<open>
  No row of the table holds the identifier of \<open>r\<close> under another natural key: the hash
  has not collided on the stored rows.
\<close>

definition idUnclaimed :: "ent_SourceName \<Rightarrow> ent_SourceName list \<Rightarrow> bool" where
  "idUnclaimed r rows = list_all (\<lambda>x. sn_ID x \<noteq> sn_ID r \<or> sourceNameConflict r x) rows"

section \<open>Querying source names\<close>

text \<open>
  Modelled from the spec: \<^verbatim>\<open>optionalPredicate\<close> is declared outside \<^verbatim>\<open>source.go\<close>.  An
  unset field of a filter imposes no constraint; a set field imposes the predicate built
  from its value.
\<close>

definition optionalPredicate :: "'v option \<Rightarrow> ('v \<Rightarrow> 'r \<Rightarrow> bool) \<Rightarrow> 'r \<Rightarrow> bool" where
  "optionalPredicate v fn = (case v of None \<Rightarrow> (\<lambda>_. True) | Some x \<Rightarrow> fn x)"

text \<open>
  \<^verbatim>\<open>EqualFold\<close> compares without regard to letter case; the letters of a commit are
  ASCII.
\<close>

definition toLower :: "char \<Rightarrow> char" where
  "toLower c =
     (let n = (of_char c :: nat) in if 65 \<le> n \<and> n \<le> 90 then char_of (n + 32) else c)"

definition EqualFold :: "string \<Rightarrow> string \<Rightarrow> bool" where
  "EqualFold a b = (map toLower a = map toLower b)"

text \<open>\<^verbatim>\<open>sourceQuery\<close>: the conjunction of the six optional predicates, in source order.\<close>

definition sourceQuery :: "env \<Rightarrow> SourceSpec \<Rightarrow> 'a ent_SourceName_scheme \<Rightarrow> bool" where
  "sourceQuery E filter' r =
     (optionalPredicate (ss_ID filter') (\<lambda>v x. IDEQ E v (sn_ID x)) r
      \<and> optionalPredicate (ss_Type filter') (\<lambda>v x. sn_Type x = v) r
      \<and> optionalPredicate (ss_Namespace filter') (\<lambda>v x. sn_Namespace x = v) r
      \<and> optionalPredicate (ss_Name filter') (\<lambda>v x. sn_Name x = v) r
      \<and> optionalPredicate (ss_Commit filter') (\<lambda>v x. EqualFold (sn_Commit x) v) r
      \<and> optionalPredicate (ss_Tag filter') (\<lambda>v x. sn_Tag x = v) r)"

definition sourceInputQuery :: "env \<Rightarrow> SourceInputSpec \<Rightarrow> 'a ent_SourceName_scheme \<Rightarrow> bool" where
  "sourceInputQuery E filter' =
     sourceQuery E
       \<lparr> ss_ID = None, ss_Type = Some (si_Type filter'),
         ss_Namespace = Some (si_Namespace filter'), ss_Name = Some (si_Name filter'),
         ss_Tag = Some (stringOrEmpty (si_Tag filter')),
         ss_Commit = Some (stringOrEmpty (si_Commit filter')) \<rparr>"

text \<open>
  \<^verbatim>\<open>getSourceNameID\<close>: \<^verbatim>\<open>Query().Where(...).OnlyID(ctx)\<close> returns the identifier of the
  single matching row, and an error when none or several match.
\<close>

definition getSourceNameID :: "env \<Rightarrow> db \<Rightarrow> SourceInputSpec \<Rightarrow> uuid result" where
  "getSourceNameID E client s =
     (if unavailable client then Err (StorageFailure ''storage unavailable'')
      else (case filter (sourceInputQuery E s) (sourceNames client) of
              [] \<Rightarrow> Err NotFoundError
            | [r] \<Rightarrow> Ok (sn_ID r)
            | _ \<Rightarrow> Err NotSingularError))"

section \<open>Ingesting HasSourceAt\<close>

text \<open>The columns and predicates a conflict clause of the HasSourceAt table names.\<close>

datatype column =
    FieldSourceID | FieldJustification | FieldKnownSince | FieldCollector | FieldOrigin
  | FieldDocumentRef | FieldPackageNameID | FieldPackageVersionID

datatype sqlval = SqlNull | SqlText string | SqlTime time | SqlUUID uuid

datatype sql_Predicate =
    sql_IsNull column
  | sql_NotNull column
  | sql_And sql_Predicate sql_Predicate

definition columnValue :: "'a HasSourceAtCreate_scheme \<Rightarrow> column \<Rightarrow> sqlval" where
  "columnValue r c =
     (case c of
        FieldSourceID \<Rightarrow> SqlUUID (c_SourceID r)
      | FieldJustification \<Rightarrow> SqlText (c_Justification r)
      | FieldKnownSince \<Rightarrow> SqlTime (c_KnownSince r)
      | FieldCollector \<Rightarrow> SqlText (c_Collector r)
      | FieldOrigin \<Rightarrow> SqlText (c_Origin r)
      | FieldDocumentRef \<Rightarrow> SqlText (c_DocumentRef r)
      | FieldPackageNameID \<Rightarrow>
          (case c_AllVersionsID r of None \<Rightarrow> SqlNull | Some u \<Rightarrow> SqlUUID u)
      | FieldPackageVersionID \<Rightarrow>
          (case c_PackageVersionID r of None \<Rightarrow> SqlNull | Some u \<Rightarrow> SqlUUID u))"

fun holds :: "sql_Predicate \<Rightarrow> 'a HasSourceAtCreate_scheme \<Rightarrow> bool" where
  "holds (sql_IsNull c) r = (columnValue r c = SqlNull)"
| "holds (sql_NotNull c) r = (columnValue r c \<noteq> SqlNull)"
| "holds (sql_And p q) r = (holds p r \<and> holds q r)"

text \<open>
  An insert with \<^verbatim>\<open>ON CONFLICT (columns) WHERE predicate\<close> is arbitrated by the partial
  unique index of that definition: a stored row stands in the way when it and the new row
  both lie in the index (the predicate holds) and agree on every column, none of them
  null.
\<close>

definition conflictsWith ::
  "column list \<Rightarrow> sql_Predicate \<Rightarrow> HasSourceAtCreate \<Rightarrow> HasSourceAtRow \<Rightarrow> bool" where
  "conflictsWith conflictColumns conflictWhere new x =
     (holds conflictWhere x \<and> holds conflictWhere new
      \<and> list_all (\<lambda>c. columnValue x c = columnValue new c \<and> columnValue new c \<noteq> SqlNull)
           conflictColumns)"

definition storedRow :: "uuid \<Rightarrow> HasSourceAtCreate \<Rightarrow> HasSourceAtRow" where
  "storedRow newID c =
     \<lparr> c_Collector = c_Collector c, c_Origin = c_Origin c, c_DocumentRef = c_DocumentRef c,
       c_Justification = c_Justification c, c_KnownSince = c_KnownSince c,
       c_SourceID = c_SourceID c, c_AllVersionsID = c_AllVersionsID c,
       c_PackageVersionID = c_PackageVersionID c, hs_ID = newID \<rparr>"

datatype upsert_outcome = Stored | Existing uuid | Refused error

text \<open>
  One HasSourceAt row sent under a conflict clause.  The builders of \<^verbatim>\<open>source.go\<close> set
  no identifier, so the row gets the one the schema's default generator draws, here
  \<open>newID\<close>; it must be new to the table.
\<close>

definition insertHasSourceAt ::
  "db \<Rightarrow> column list \<Rightarrow> sql_Predicate \<Rightarrow> uuid \<Rightarrow> HasSourceAtCreate \<Rightarrow> upsert_outcome \<times> db" where
  "insertHasSourceAt d conflictColumns conflictWhere newID c =
     (if unavailable d then (Refused (StorageFailure ''storage unavailable''), d)
      else (case find (conflictsWith conflictColumns conflictWhere c) (hasSourceAts d) of
              Some x \<Rightarrow> (Existing (hs_ID x), d)
            | None \<Rightarrow>
                if list_ex (\<lambda>x. hs_ID x = newID) (hasSourceAts d)
                then (Refused (StorageFailure ''duplicate key value violates unique constraint''), d)
                else (Stored, d\<lparr>hasSourceAts := hasSourceAts d @ [storedRow newID c]\<rparr>)))"

text \<open>
  \<^verbatim>\<open>OnConflict(...).Ignore().ID(ctx)\<close>: on a conflict every column is set to itself, so
  the statement returns the identifier of the row that was already there.
\<close>

definition execUpsertHasSourceAt ::
  "db \<Rightarrow> column list \<Rightarrow> sql_Predicate \<Rightarrow> uuid \<Rightarrow> HasSourceAtCreate \<Rightarrow> uuid result \<times> db" where
  "execUpsertHasSourceAt d conflictColumns conflictWhere newID c =
     (case insertHasSourceAt d conflictColumns conflictWhere newID c of
        (Stored, d') \<Rightarrow> (Ok newID, d')
      | (Existing i, d') \<Rightarrow> (Ok i, d')
      | (Refused e, d') \<Rightarrow> (Err e, d'))"

text \<open>
  \<^verbatim>\<open>CreateBulk(...).OnConflict(...).DoNothing().Exec(ctx)\<close>: one multi-row statement; the
  \<open>k\<close>-th row of the call draws the identifier \<open>fresh k\<close>.
\<close>

fun insertAllHasSourceAts ::
  "db \<Rightarrow> column list \<Rightarrow> sql_Predicate \<Rightarrow> (nat \<Rightarrow> uuid) \<Rightarrow> nat \<Rightarrow> HasSourceAtCreate list \<Rightarrow> error + db" where
  "insertAllHasSourceAts d cols w fresh k [] = Inr d"
| "insertAllHasSourceAts d cols w fresh k (c # cs) =
     (case insertHasSourceAt d cols w (fresh k) c of
        (Refused e, _) \<Rightarrow> Inl e
      | (_, d') \<Rightarrow> insertAllHasSourceAts d' cols w fresh (Suc k) cs)"

definition execCreateBulkHasSourceAts ::
  "db \<Rightarrow> column list \<Rightarrow> sql_Predicate \<Rightarrow> (nat \<Rightarrow> uuid) \<Rightarrow> nat \<Rightarrow> HasSourceAtCreate list \<Rightarrow> error option \<times> db" where
  "execCreateBulkHasSourceAts d cols w fresh k cs =
     (if cs = [] then (None, d)
      else (case insertAllHasSourceAts d cols w fresh k cs of
              Inl e \<Rightarrow> (Some e, d)
            | Inr d' \<Rightarrow> (None, d')))"

definition hasSourceAtConflictColumns :: "column list" where
  "hasSourceAtConflictColumns =
     [FieldSourceID, FieldJustification, FieldKnownSince, FieldCollector, FieldOrigin,
      FieldDocumentRef]"

text \<open>
  The conflict target both upsert functions compute from the match type before anything
  else (the same lines in \<^verbatim>\<open>upsertHasSourceAt\<close> and \<^verbatim>\<open>upsertBulkHasSourceAts\<close>).
\<close>

definition conflictColumnsFor :: "MatchFlags \<Rightarrow> column list" where
  "conflictColumnsFor pkgMatchType =
     (if Pkg pkgMatchType = PkgMatchTypeAllVersions
      then hasSourceAtConflictColumns @ [FieldPackageNameID]
      else hasSourceAtConflictColumns @ [FieldPackageVersionID])"

definition conflictWhereFor :: "MatchFlags \<Rightarrow> sql_Predicate" where
  "conflictWhereFor pkgMatchType =
     (if Pkg pkgMatchType = PkgMatchTypeAllVersions
      then sql_And (sql_IsNull FieldPackageVersionID) (sql_NotNull FieldPackageNameID)
      else sql_And (sql_NotNull FieldPackageVersionID) (sql_IsNull FieldPackageNameID))"

text \<open>
  \<^verbatim>\<open>generateHasSourceAtCreate\<close>.  \<open>pkg\<close>, \<open>src\<close> and \<open>hs\<close> are pointers, as are the
  fields \<open>SourceInput\<close> and \<open>PackageInput\<close> it dereferences without a check.
\<close>

definition generateHasSourceAtCreate ::
  "env \<Rightarrow> db \<Rightarrow> IDorPkgInput option \<Rightarrow> IDorSourceInput option \<Rightarrow> MatchFlags
     \<Rightarrow> HasSourceAtInputSpec option \<Rightarrow> HasSourceAtCreate result" where
  "generateHasSourceAtCreate E tx pkg src pkgMatchType hs =
     (case src of
        None \<Rightarrow> Err (Errorf ''source must be specified for hasSourceAt'')
      | Some src' \<Rightarrow>
     (case
        (case SourceNameID src' of
           Some g \<Rightarrow>
             (case uuid_Parse E (gid_id (fromGlobalID g)) of
                None \<Rightarrow> Err (Wrap ''uuid conversion from SourceNameID failed with error'' UUIDParseError)
              | Some u \<Rightarrow> Ok u)
         | None \<Rightarrow>
             (case SourceInput src' of
                None \<Rightarrow> Panic NilPointerDereference
              | Some s \<Rightarrow> getSourceNameID E tx s))
      of
        Panic p \<Rightarrow> Panic p
      | Err e \<Rightarrow> Err e
      | Ok sourceID \<Rightarrow>
     (case hs of
        None \<Rightarrow> Panic NilPointerDereference
      | Some h \<Rightarrow>
     (let hasSourceAtCreate =
            \<lparr> c_Collector = hi_Collector h, c_Origin = hi_Origin h,
              c_DocumentRef = hi_DocumentRef h, c_Justification = hi_Justification h,
              c_KnownSince = hi_KnownSince h, c_SourceID = sourceID,
              c_AllVersionsID = None, c_PackageVersionID = None \<rparr>
      in
      case pkg of
        None \<Rightarrow> Err (Errorf ''package must be specified for hasSourceAt'')
      | Some pkg' \<Rightarrow>
          if Pkg pkgMatchType = PkgMatchTypeAllVersions then
            (case
               (case PackageNameID pkg' of
                  Some g \<Rightarrow>
                    (case uuid_Parse E (gid_id (fromGlobalID g)) of
                       None \<Rightarrow> Err (Wrap ''uuid conversion from PackageNameID failed with error'' UUIDParseError)
                     | Some u \<Rightarrow> Ok u)
                | None \<Rightarrow>
                    (case PackageInput pkg' of
                       None \<Rightarrow> Panic NilPointerDereference
                     | Some pin \<Rightarrow>
                         (case getPkgName E tx pin of
                            Inl err \<Rightarrow> Err err
                          | Inr pnID \<Rightarrow> Ok pnID)))
             of
               Panic p \<Rightarrow> Panic p
             | Err e \<Rightarrow> Err e
             | Ok pkgNameID \<Rightarrow> Ok (hasSourceAtCreate\<lparr>c_AllVersionsID := Some pkgNameID\<rparr>))
          else
            (case
               (case PackageVersionID pkg' of
                  Some g \<Rightarrow>
                    (case uuid_Parse E (gid_id (fromGlobalID g)) of
                       None \<Rightarrow> Err (Wrap ''uuid conversion from packageVersionID failed with error'' UUIDParseError)
                     | Some u \<Rightarrow> Ok u)
                | None \<Rightarrow>
                    (case PackageInput pkg' of
                       None \<Rightarrow> Panic NilPointerDereference
                     | Some pin \<Rightarrow>
                         (case getPkgVersion E tx pin of
                            Inl err \<Rightarrow> Err (Wrap ''getPkgVersion'' err)
                          | Inr pvID \<Rightarrow> Ok pvID)))
             of
               Panic p \<Rightarrow> Panic p
             | Err e \<Rightarrow> Err e
             | Ok pkgVersionID \<Rightarrow>
                 Ok (hasSourceAtCreate\<lparr>c_PackageVersionID := Some pkgVersionID\<rparr>))))))"

text \<open>\<^verbatim>\<open>upsertHasSourceAt\<close>; \<open>newID\<close> is the identifier the default generator draws.\<close>

definition upsertHasSourceAt ::
  "env \<Rightarrow> db \<Rightarrow> uuid \<Rightarrow> IDorPkgInput \<Rightarrow> MatchFlags \<Rightarrow> IDorSourceInput \<Rightarrow> HasSourceAtInputSpec
     \<Rightarrow> uuid result \<times> db" where
  "upsertHasSourceAt E tx newID pkg pkgMatchType source spec =
     (let conflictColumns = conflictColumnsFor pkgMatchType;
          conflictWhere = conflictWhereFor pkgMatchType
      in
      case generateHasSourceAtCreate E tx (Some pkg) (Some source) pkgMatchType (Some spec) of
        Panic p \<Rightarrow> (Panic p, tx)
      | Err err \<Rightarrow> (Err (Wrap ''generateHasSourceAtCreate'' err), tx)
      | Ok insert' \<Rightarrow>
          (case execUpsertHasSourceAt tx conflictColumns conflictWhere newID insert' of
             (Err err, tx') \<Rightarrow> (Err (Wrap ''upsert hasSourceAt node'' err), tx')
           | (Panic p, tx') \<Rightarrow> (Panic p, tx')
           | (Ok ident, tx') \<Rightarrow> (Ok ident, tx')))"

definition IngestHasSourceAt ::
  "env \<Rightarrow> db \<Rightarrow> uuid \<Rightarrow> IDorPkgInput \<Rightarrow> MatchFlags \<Rightarrow> IDorSourceInput \<Rightarrow> HasSourceAtInputSpec
     \<Rightarrow> gid result \<times> db" where
  "IngestHasSourceAt E b newID pkg pkgMatchType source hasSourceAt =
     (case WithinTX b (\<lambda>tx. upsertHasSourceAt E tx newID pkg pkgMatchType source hasSourceAt) of
        (Err txErr, b') \<Rightarrow> (Err txErr, b')
      | (Panic p, b') \<Rightarrow> (Panic p, b')
      | (Ok record, b') \<Rightarrow> (Ok (toGlobalID hassourceat_Table record), b'))"

text \<open>
  The inner loop of \<^verbatim>\<open>upsertBulkHasSourceAts\<close> over one batch.  \<open>index\<close> is the running
  index into \<open>pkgs\<close> and \<open>sources\<close>; an index past the end of a slice is a panic.
\<close>

fun hasSourceAtCreates ::
  "env \<Rightarrow> db \<Rightarrow> IDorPkgInput option list \<Rightarrow> IDorSourceInput option list \<Rightarrow> MatchFlags \<Rightarrow> nat
     \<Rightarrow> HasSourceAtInputSpec option list \<Rightarrow> (HasSourceAtCreate list \<times> nat) result" where
  "hasSourceAtCreates E tx pkgs sources pkgMatchType index [] = Ok ([], index)"
| "hasSourceAtCreates E tx pkgs sources pkgMatchType index (hsa # hsas) =
     (if length pkgs \<le> index then Panic IndexOutOfRange
      else if length sources \<le> index then Panic IndexOutOfRange
      else
        (case generateHasSourceAtCreate E tx (pkgs ! index) (sources ! index) pkgMatchType hsa of
           Panic p \<Rightarrow> Panic p
         | Err err \<Rightarrow> Err (Wrap ''generateHasSourceAtCreate'' err)
         | Ok c \<Rightarrow>
             (case hasSourceAtCreates E tx pkgs sources pkgMatchType (Suc index) hsas of
                Panic p \<Rightarrow> Panic p
              | Err e \<Rightarrow> Err e
              | Ok (creates, index') \<Rightarrow> Ok (c # creates, index'))))"

text \<open>The outer loop over the batches; it never touches the slice of identifiers.\<close>

fun upsertBulkHasSourceAts_batches ::
  "env \<Rightarrow> db \<Rightarrow> (nat \<Rightarrow> uuid) \<Rightarrow> IDorPkgInput option list \<Rightarrow> IDorSourceInput option list
     \<Rightarrow> MatchFlags \<Rightarrow> nat \<Rightarrow> HasSourceAtInputSpec option list list \<Rightarrow> unit result \<times> db" where
  "upsertBulkHasSourceAts_batches E tx fresh pkgs sources pkgMatchType index [] = (Ok (), tx)"
| "upsertBulkHasSourceAts_batches E tx fresh pkgs sources pkgMatchType index (hsas # batches) =
     (case hasSourceAtCreates E tx pkgs sources pkgMatchType index hsas of
        Panic p \<Rightarrow> (Panic p, tx)
      | Err e \<Rightarrow> (Err e, tx)
      | Ok (creates, index') \<Rightarrow>
          (case execCreateBulkHasSourceAts tx (conflictColumnsFor pkgMatchType)
                  (conflictWhereFor pkgMatchType) fresh index creates of
             (Some err, tx') \<Rightarrow> (Err (Wrap ''bulk upsert hasSourceAt node'' err), tx')
           | (None, tx') \<Rightarrow>
               upsertBulkHasSourceAts_batches E tx' fresh pkgs sources pkgMatchType index' batches))"

text \<open>
  \<^verbatim>\<open>upsertBulkHasSourceAts\<close>: \<open>ids\<close> is made empty, the loop runs, and \<open>ids\<close> is
  returned.  \<open>pkgMatchType\<close> is a pointer that is read before anything else.
\<close>

definition upsertBulkHasSourceAts ::
  "env \<Rightarrow> db \<Rightarrow> (nat \<Rightarrow> uuid) \<Rightarrow> IDorPkgInput option list \<Rightarrow> MatchFlags option
     \<Rightarrow> IDorSourceInput option list \<Rightarrow> HasSourceAtInputSpec option list \<Rightarrow> string list result \<times> db" where
  "upsertBulkHasSourceAts E tx fresh pkgs pkgMatchType sources hasSourceAts' =
     (let ids = [] in
      case pkgMatchType of
        None \<Rightarrow> (Panic NilPointerDereference, tx)
      | Some m \<Rightarrow>
          (case chunk hasSourceAts' (MaxBatchSize E) of
             Panic p \<Rightarrow> (Panic p, tx)
           | Err e \<Rightarrow> (Err e, tx)
           | Ok batches \<Rightarrow>
               (case upsertBulkHasSourceAts_batches E tx fresh pkgs sources m 0 batches of
                  (Panic p, tx') \<Rightarrow> (Panic p, tx')
                | (Err e, tx') \<Rightarrow> (Err e, tx')
                | (Ok _, tx') \<Rightarrow> (Ok ids, tx'))))"

text \<open>
  Modelled from the spec: \<^verbatim>\<open>toGlobalIDs\<close> is declared outside \<^verbatim>\<open>source.go\<close>; it encodes
  every identifier of a list under one type tag.
\<close>

definition toGlobalIDs :: "string \<Rightarrow> string list \<Rightarrow> gid list" where
  "toGlobalIDs nodeType ids = map (toGlobalID nodeType) ids"

definition IngestHasSourceAts ::
  "env \<Rightarrow> db \<Rightarrow> (nat \<Rightarrow> uuid) \<Rightarrow> IDorPkgInput option list \<Rightarrow> MatchFlags option
     \<Rightarrow> IDorSourceInput option list \<Rightarrow> HasSourceAtInputSpec option list \<Rightarrow> gid list result \<times> db" where
  "IngestHasSourceAts E b fresh pkgs pkgMatchType sources hasSourceAts' =
     (case WithinTX b
             (\<lambda>tx. upsertBulkHasSourceAts E tx fresh pkgs pkgMatchType sources hasSourceAts') of
        (Err txErr, b') \<Rightarrow> (Err (Wrap ''IngestHasSourceAts'' txErr), b')
      | (Panic p, b') \<Rightarrow> (Panic p, b')
      | (Ok ids, b') \<Rightarrow> (Ok (toGlobalIDs hassourceat_Table ids), b'))"

section \<open>The external model and its projections\<close>

record model_SourceName =
  msn_ID :: gid
  msn_Name :: string
  msn_Tag :: "string option"
  msn_Commit :: "string option"

record model_SourceNamespace =
  msns_ID :: gid
  msns_Namespace :: string
  msns_Names :: "model_SourceName list"

record model_Source =
  ms_ID :: gid
  ms_Type :: string
  ms_Namespaces :: "model_SourceNamespace list"

record model_PackageVersion =
  mpv_ID :: gid
  mpv_Version :: string
  mpv_Qualifiers :: "(string \<times> string) list"
  mpv_Subpath :: string

record model_PackageName =
  mpn_ID :: gid
  mpn_Name :: string
  mpn_Versions :: "model_PackageVersion list"

record model_PackageNamespace =
  mpns_ID :: gid
  mpns_Namespace :: string
  mpns_Names :: "model_PackageName list"

record model_Package =
  mp_ID :: gid
  mp_Type :: string
  mp_Namespaces :: "model_PackageNamespace list"

record model_HasSourceAt =
  hm_ID :: gid
  hm_Package :: "model_Package option"
  hm_Source :: "model_Source option"
  hm_KnownSince :: time
  hm_Justification :: string
  hm_Origin :: string
  hm_Collector :: string
  hm_DocumentRef :: string

text \<open>\<^verbatim>\<open>toModelSource\<close> and \<^verbatim>\<open>toModelSourceName\<close>; the argument is a pointer.\<close>

definition toModelSource :: "'a ent_SourceName_scheme option \<Rightarrow> model_Source option" where
  "toModelSource s =
     (case s of
        None \<Rightarrow> None
      | Some s' \<Rightarrow>
          (let sourceName =
                 \<lparr> msn_ID = toGlobalID sourcename_Table (sn_ID s'), msn_Name = sn_Name s',
                   msn_Tag = (if sn_Tag s' \<noteq> [] then Some (sn_Tag s') else None),
                   msn_Commit = (if sn_Commit s' \<noteq> [] then Some (sn_Commit s') else None) \<rparr>
           in Some \<lparr> ms_ID = toGlobalID srcTypeString (sn_ID s'), ms_Type = sn_Type s',
                     ms_Namespaces =
                       [\<lparr> msns_ID = toGlobalID srcNamespaceString (sn_ID s'),
                          msns_Namespace = sn_Namespace s', msns_Names = [sourceName] \<rparr>] \<rparr>))"

definition toModelSourceName :: "'a ent_SourceName_scheme option \<Rightarrow> model_Source option" where
  "toModelSourceName s = toModelSource s"

text \<open>
  Modelled from the spec: \<^verbatim>\<open>toModelPackage\<close>, \<^verbatim>\<open>backReferencePackageVersion\<close> and
  \<^verbatim>\<open>backReferencePackageName\<close> are declared outside \<^verbatim>\<open>source.go\<close>, as are the type
  tags of package identifiers.  A package row at the version level is projected back into a
  Type, Namespace, Name, [Version] nested shape with single-element intermediate
  containers; the versions listed are those the name carries, and a version is put under
  its name by carrying exactly that version.
\<close>

definition pkgTypeString :: string where
  "pkgTypeString = ''pkgType''"

definition pkgNamespaceString :: string where
  "pkgNamespaceString = ''pkgNamespace''"

definition packagename_Table :: string where
  "packagename_Table = ''package_names''"

definition packageversion_Table :: string where
  "packageversion_Table = ''package_versions''"

definition toModelPackageVersion :: "ent_PackageVersion \<Rightarrow> model_PackageVersion" where
  "toModelPackageVersion pv =
     \<lparr> mpv_ID = toGlobalID packageversion_Table (pv_ID pv), mpv_Version = pv_Version pv,
       mpv_Qualifiers = pv_Qualifiers pv, mpv_Subpath = pv_Subpath pv \<rparr>"

definition toModelPackage :: "ent_PackageName option \<Rightarrow> model_Package option" where
  "toModelPackage p =
     (case p of
        None \<Rightarrow> None
      | Some pn \<Rightarrow>
          Some \<lparr> mp_ID = toGlobalID pkgTypeString (pn_ID pn), mp_Type = pn_Type pn,
                 mp_Namespaces =
                   [\<lparr> mpns_ID = toGlobalID pkgNamespaceString (pn_ID pn),
                      mpns_Namespace = pn_Namespace pn,
                      mpns_Names =
                        [\<lparr> mpn_ID = toGlobalID packagename_Table (pn_ID pn),
                           mpn_Name = pn_Name pn,
                           mpn_Versions = map toModelPackageVersion (pn_Edges_Versions pn) \<rparr>] \<rparr>] \<rparr>)"

definition backReferencePackageVersion :: "ent_PackageVersion option \<Rightarrow> ent_PackageName option" where
  "backReferencePackageVersion pv =
     (case pv of
        None \<Rightarrow> None
      | Some v \<Rightarrow>
          (case pv_Edges_Name v of
             None \<Rightarrow> None
           | Some pn \<Rightarrow>
               Some (PackageNameEnt (pn_ID pn) (pn_Type pn) (pn_Namespace pn) (pn_Name pn) [v])))"

definition backReferencePackageName :: "ent_PackageName option \<Rightarrow> ent_PackageName option" where
  "backReferencePackageName pn = pn"

text \<open>
  \<^verbatim>\<open>toModelHasSourceAt\<close>.  In the second branch the versions of the first name of the
  first namespace are overwritten with an empty list; a nil package there is a nil
  dereference, an empty container an index out of range.
\<close>

definition toModelHasSourceAt :: "ent_HasSourceAt \<Rightarrow> model_HasSourceAt result" where
  "toModelHasSourceAt record' =
     (case
        (case hs_Edges_PackageVersion record' of
           Some pv \<Rightarrow> Ok (toModelPackage (backReferencePackageVersion (Some pv)))
         | None \<Rightarrow>
             (case toModelPackage (backReferencePackageName (hs_Edges_AllVersions record')) of
                None \<Rightarrow> Panic NilPointerDereference
              | Some pkg \<Rightarrow>
                  (case mp_Namespaces pkg of
                     [] \<Rightarrow> Panic IndexOutOfRange
                   | ns # nss \<Rightarrow>
                       (case mpns_Names ns of
                          [] \<Rightarrow> Panic IndexOutOfRange
                        | n # names \<Rightarrow>
                            Ok (Some (pkg\<lparr>mp_Namespaces :=
                                  ns\<lparr>mpns_Names := n\<lparr>mpn_Versions := []\<rparr> # names\<rparr> # nss\<rparr>))))))
      of
        Panic p \<Rightarrow> Panic p
      | Err e \<Rightarrow> Err e
      | Ok pkg \<Rightarrow>
          Ok \<lparr> hm_ID = toGlobalID hassourceat_Table (hs_ID record'),
               hm_Package = pkg,
               hm_Source = toModelSourceName (hs_Edges_Source record'),
               hm_KnownSince = c_KnownSince record',
               hm_Justification = c_Justification record',
               hm_Origin = c_Origin record',
               hm_Collector = c_Collector record',
               hm_DocumentRef = c_DocumentRef record' \<rparr>)"

text \<open>
  Modelled from the spec: \<^verbatim>\<open>collect\<close> is declared outside \<^verbatim>\<open>source.go\<close>; it projects
  every record of a list, in order.  A projection that panics ends the call.
\<close>

fun collect :: "'a list \<Rightarrow> ('a \<Rightarrow> 'b result) \<Rightarrow> 'b list result" where
  "collect [] f = Ok []"
| "collect (x # xs) f =
     (case f x of
        Panic p \<Rightarrow> Panic p
      | Err e \<Rightarrow> Err e
      | Ok y \<Rightarrow>
          (case collect xs f of
             Panic p \<Rightarrow> Panic p
           | Err e \<Rightarrow> Err e
           | Ok ys \<Rightarrow> Ok (y # ys)))"

section \<open>Querying HasSourceAt\<close>

text \<open>
  The row a foreign key points to.  \<open>packageVersionOf\<close> loads the version together with
  its name.  Modelled from the spec: \<^verbatim>\<open>withPackageVersionTree\<close> and
  \<^verbatim>\<open>withPackageNameTree\<close> are declared outside \<^verbatim>\<open>source.go\<close>; a version is loaded so
  that the full hierarchy above it can be rebuilt, that is, with its name.
\<close>

definition allVersionsOf :: "db \<Rightarrow> 'a HasSourceAtCreate_scheme \<Rightarrow> ent_PackageName option" where
  "allVersionsOf d r =
     (case c_AllVersionsID r of
        None \<Rightarrow> None
      | Some i \<Rightarrow> find (\<lambda>p. pn_ID p = i) (packageNames d))"

definition packageVersionOf :: "db \<Rightarrow> 'a HasSourceAtCreate_scheme \<Rightarrow> ent_PackageVersion option" where
  "packageVersionOf d r =
     (case c_PackageVersionID r of
        None \<Rightarrow> None
      | Some i \<Rightarrow>
          (case find (\<lambda>v. pv_ID v = i) (packageVersions d) of
             None \<Rightarrow> None
           | Some v \<Rightarrow>
               Some (PackageVersionEnt (pv_ID v) (pv_NameID v) (pv_Version v) (pv_Subpath v)
                       (pv_Qualifiers v)
                       (find (\<lambda>p. pn_ID p = pv_NameID v) (packageNames d)))))"

definition sourceOf :: "db \<Rightarrow> 'a HasSourceAtCreate_scheme \<Rightarrow> ent_SourceName option" where
  "sourceOf d r = find (\<lambda>x. sn_ID x = c_SourceID r) (sourceNames d)"

text \<open>
  \<^verbatim>\<open>hasSourceAtQuery\<close>: the six optional predicates, then the package and the source
  predicate when the filter has them.  A \<^verbatim>\<open>Has...With\<close> predicate holds of a row when
  the row it points to satisfies the inner predicate.
\<close>

definition hasSourceAtQuery :: "env \<Rightarrow> HasSourceAtSpec \<Rightarrow> db \<Rightarrow> 'a HasSourceAtRow_scheme \<Rightarrow> bool" where
  "hasSourceAtQuery E filter' d r =
     (optionalPredicate (hf_ID filter') (\<lambda>v x. IDEQ E v (hs_ID x)) r
      \<and> optionalPredicate (hf_Collector filter') (\<lambda>v x. c_Collector x = v) r
      \<and> optionalPredicate (hf_Origin filter') (\<lambda>v x. c_Origin x = v) r
      \<and> optionalPredicate (hf_DocumentRef filter') (\<lambda>v x. c_DocumentRef x = v) r
      \<and> optionalPredicate (hf_Justification filter') (\<lambda>v x. c_Justification x = v) r
      \<and> optionalPredicate (hf_KnownSince filter') (\<lambda>v x. c_KnownSince x = v) r
      \<and> (case hf_Package filter' of
            None \<Rightarrow> True
          | Some p \<Rightarrow>
              ((case allVersionsOf d r of
                  None \<Rightarrow> False
                | Some pn \<Rightarrow> packageNameQuery E p d pn)
               \<or> (case packageVersionOf d r of
                     None \<Rightarrow> False
                   | Some pv \<Rightarrow> packageVersionQuery E p d pv)))
      \<and> (case hf_Source filter' of
            None \<Rightarrow> True
          | Some sf \<Rightarrow>
              (case sourceOf d r of
                 None \<Rightarrow> False
               | Some sn \<Rightarrow> sourceQuery E sf sn)))"

text \<open>\<^verbatim>\<open>getHasSourceAtObject\<close>: the three edges are loaded eagerly.\<close>

definition getHasSourceAtObject :: "db \<Rightarrow> HasSourceAtRow \<Rightarrow> ent_HasSourceAt" where
  "getHasSourceAtObject d r =
     \<lparr> c_Collector = c_Collector r, c_Origin = c_Origin r, c_DocumentRef = c_DocumentRef r,
       c_Justification = c_Justification r, c_KnownSince = c_KnownSince r,
       c_SourceID = c_SourceID r, c_AllVersionsID = c_AllVersionsID r,
       c_PackageVersionID = c_PackageVersionID r, hs_ID = hs_ID r,
       hs_Edges_PackageVersion = packageVersionOf d r,
       hs_Edges_AllVersions = allVersionsOf d r,
       hs_Edges_Source = sourceOf d r \<rparr>"

definition emptyHasSourceAtSpec :: HasSourceAtSpec where
  "emptyHasSourceAtSpec =
     \<lparr> hf_ID = None, hf_Package = None, hf_Source = None, hf_KnownSince = None,
       hf_Justification = None, hf_Origin = None, hf_Collector = None, hf_DocumentRef = None \<rparr>"

definition emptySourceSpec :: SourceSpec where
  "emptySourceSpec =
     \<lparr> ss_ID = None, ss_Type = None, ss_Namespace = None, ss_Name = None, ss_Tag = None,
       ss_Commit = None \<rparr>"

text \<open>
  The records \<^verbatim>\<open>Query().Where(...).Limit(MaxPageSize).All(ctx)\<close> returns: the rows that
  satisfy the predicate, in table order, cut at the limit.
\<close>

definition HasSourceAt_records :: "env \<Rightarrow> db \<Rightarrow> HasSourceAtSpec \<Rightarrow> ent_HasSourceAt list" where
  "HasSourceAt_records E b filter' =
     map (getHasSourceAtObject b)
       (take (MaxPageSize E) (filter (hasSourceAtQuery E filter' b) (hasSourceAts b)))"

definition HasSourceAt :: "env \<Rightarrow> db \<Rightarrow> HasSourceAtSpec option \<Rightarrow> model_HasSourceAt list result" where
  "HasSourceAt E b filter' =
     (let filter'' = (case filter' of None \<Rightarrow> emptyHasSourceAtSpec | Some f \<Rightarrow> f) in
      if unavailable b then Err (StorageFailure ''storage unavailable'')
      else collect (HasSourceAt_records E b filter'') toModelHasSourceAt)"

definition Sources_records :: "env \<Rightarrow> db \<Rightarrow> SourceSpec \<Rightarrow> ent_SourceName list" where
  "Sources_records E b filter' =
     take (MaxPageSize E) (filter (sourceQuery E filter') (sourceNames b))"

definition Sources :: "env \<Rightarrow> db \<Rightarrow> SourceSpec option \<Rightarrow> model_Source option list result" where
  "Sources E b filter' =
     (let filter'' = (case filter' of None \<Rightarrow> emptySourceSpec | Some f \<Rightarrow> f) in
      if unavailable b then Err (StorageFailure ''storage unavailable'')
      else collect (Sources_records E b filter'') (\<lambda>r. Ok (toModelSourceName (Some r))))"

section \<open>Neighbours of a source name\<close>

text \<open>
  The nodes \<^verbatim>\<open>srcNameNeighbors\<close> returns.  The projections of scorecards, occurrences,
  certifications, metadata, points of contact and legal certifications are declared
  elsewhere; a node of such a kind is kept as the entity the projection is applied to.
\<close>

datatype Node =
    Node_Source model_Source
  | Node_HasSourceAt model_HasSourceAt
  | Node_CertifyScorecard ent_Evidence
  | Node_IsOccurrence ent_Evidence
  | Node_CertifyBad ent_Certification
  | Node_CertifyGood ent_Certification
  | Node_HasMetadata ent_Evidence
  | Node_PointOfContact ent_Evidence
  | Node_CertifyLegal ent_Evidence

text \<open>
  A \<^verbatim>\<open>SourceNameQuery\<close> builder of the generated ent code: its predicate and, per edge,
  the loader a \<^verbatim>\<open>With...\<close> call configured.  The builder has one field per edge and a
  \<^verbatim>\<open>With...\<close> call assigns it, so a later call for the same edge replaces the loader of an
  earlier one.  The loader of the certification edge carries the predicate its option
  function adds with \<^verbatim>\<open>q.Where\<close>.
\<close>

record SourceNameQuery =
  q_predicate :: SourceSpec
  q_withHasSourceAt :: bool
  q_withScorecard :: bool
  q_withOccurrences :: bool
  q_withCertification :: "(ent_Certification \<Rightarrow> bool) option"
  q_withMetadata :: bool
  q_withPoc :: bool
  q_withCertifyLegal :: bool

definition SourceName_Query_Where :: "SourceSpec \<Rightarrow> SourceNameQuery" where
  "SourceName_Query_Where p =
     \<lparr> q_predicate = p, q_withHasSourceAt = False, q_withScorecard = False,
       q_withOccurrences = False, q_withCertification = None, q_withMetadata = False,
       q_withPoc = False, q_withCertifyLegal = False \<rparr>"

definition WithHasSourceAt :: "SourceNameQuery \<Rightarrow> SourceNameQuery" where
  "WithHasSourceAt q = q\<lparr>q_withHasSourceAt := True\<rparr>"

definition WithScorecard :: "SourceNameQuery \<Rightarrow> SourceNameQuery" where
  "WithScorecard q = q\<lparr>q_withScorecard := True\<rparr>"

definition WithOccurrences :: "SourceNameQuery \<Rightarrow> SourceNameQuery" where
  "WithOccurrences q = q\<lparr>q_withOccurrences := True\<rparr>"

definition WithCertification :: "(ent_Certification \<Rightarrow> bool) \<Rightarrow> SourceNameQuery \<Rightarrow> SourceNameQuery" where
  "WithCertification opt q = q\<lparr>q_withCertification := Some opt\<rparr>"

definition WithMetadata :: "SourceNameQuery \<Rightarrow> SourceNameQuery" where
  "WithMetadata q = q\<lparr>q_withMetadata := True\<rparr>"

definition WithPoc :: "SourceNameQuery \<Rightarrow> SourceNameQuery" where
  "WithPoc q = q\<lparr>q_withPoc := True\<rparr>"

definition WithCertifyLegal :: "SourceNameQuery \<Rightarrow> SourceNameQuery" where
  "WithCertifyLegal q = q\<lparr>q_withCertifyLegal := True\<rparr>"

definition linkedTo :: "uuid \<Rightarrow> ent_Evidence list \<Rightarrow> ent_Evidence list" where
  "linkedTo i rows = filter (\<lambda>e. ev_SourceID e = Some i) rows"

text \<open>One source name with the edges the query asked for.\<close>

definition loadSourceNameEdges :: "db \<Rightarrow> SourceNameQuery \<Rightarrow> ent_SourceName \<Rightarrow> ent_SourceName_Edges" where
  "loadSourceNameEdges d q r =
     \<lparr> sn_ID = sn_ID r, sn_Type = sn_Type r, sn_Namespace = sn_Namespace r,
       sn_Name = sn_Name r, sn_Tag = sn_Tag r, sn_Commit = sn_Commit r,
       sn_Edges_HasSourceAt =
         (if q_withHasSourceAt q
          then map (getHasSourceAtObject d) (filter (\<lambda>h. c_SourceID h = sn_ID r) (hasSourceAts d))
          else []),
       sn_Edges_Scorecard = (if q_withScorecard q then linkedTo (sn_ID r) (scorecards d) else []),
       sn_Edges_Occurrences =
         (if q_withOccurrences q then linkedTo (sn_ID r) (occurrences d) else []),
       sn_Edges_Certification =
         (case q_withCertification q of
            None \<Rightarrow> []
          | Some opt \<Rightarrow>
              filter (\<lambda>c. cert_SourceID c = Some (sn_ID r) \<and> opt c) (certifications d)),
       sn_Edges_Metadata = (if q_withMetadata q then linkedTo (sn_ID r) (hasMetadata d) else []),
       sn_Edges_Poc = (if q_withPoc q then linkedTo (sn_ID r) (pointsOfContact d) else []),
       sn_Edges_CertifyLegal =
         (if q_withCertifyLegal q then linkedTo (sn_ID r) (certifyLegals d) else []) \<rparr>"

text \<open>\<^verbatim>\<open>query.Limit(MaxPageSize)\<close> followed by \<^verbatim>\<open>query.All(ctx)\<close>.\<close>

definition SourceName_All :: "env \<Rightarrow> db \<Rightarrow> SourceNameQuery \<Rightarrow> ent_SourceName_Edges list result" where
  "SourceName_All E d q =
     (if unavailable d then Err (StorageFailure ''storage unavailable'')
      else Ok (map (loadSourceNameEdges d q)
                 (take (MaxPageSize E) (filter (sourceQuery E (q_predicate q)) (sourceNames d)))))"

text \<open>The nodes the loop of \<^verbatim>\<open>srcNameNeighbors\<close> appends for one source name.\<close>

definition certificationNodes :: "ent_Certification \<Rightarrow> Node list" where
  "certificationNodes cert =
     (if cert_Type cert = TypeBAD then [Node_CertifyBad cert] else [])
     @ (if cert_Type cert = TypeGOOD then [Node_CertifyGood cert] else [])"

definition srcNameNodes :: "edgeMap \<Rightarrow> ent_SourceName_Edges \<Rightarrow> Node list result" where
  "srcNameNodes allowedEdges foundSrcName =
     (case collect (sn_Edges_HasSourceAt foundSrcName) toModelHasSourceAt of
        Panic p \<Rightarrow> Panic p
      | Err e \<Rightarrow> Err e
      | Ok hsats \<Rightarrow>
          Ok ((if allowedEdges EdgeSourceNameSourceNamespace
               then [Node_Source
                       \<lparr> ms_ID = toGlobalID srcTypeString (sn_ID foundSrcName),
                         ms_Type = sn_Type foundSrcName,
                         ms_Namespaces =
                           [\<lparr> msns_ID = toGlobalID srcNamespaceString (sn_ID foundSrcName),
                              msns_Namespace = sn_Namespace foundSrcName,
                              msns_Names = [] \<rparr>] \<rparr>]
               else [])
              @ map Node_HasSourceAt hsats
              @ map Node_CertifyScorecard (sn_Edges_Scorecard foundSrcName)
              @ map Node_IsOccurrence (sn_Edges_Occurrences foundSrcName)
              @ concat (map certificationNodes (sn_Edges_Certification foundSrcName))
              @ map Node_HasMetadata (sn_Edges_Metadata foundSrcName)
              @ map Node_PointOfContact (sn_Edges_Poc foundSrcName)
              @ map Node_CertifyLegal (sn_Edges_CertifyLegal foundSrcName)))"

definition srcNameNeighbors :: "env \<Rightarrow> db \<Rightarrow> gid \<Rightarrow> edgeMap \<Rightarrow> Node list result" where
  "srcNameNeighbors E b nodeID allowedEdges =
     (let q0 = SourceName_Query_Where (emptySourceSpec\<lparr>ss_ID := Some nodeID\<rparr>);
          q1 = (if allowedEdges EdgeSourceHasSourceAt then WithHasSourceAt q0 else q0);
          q2 = (if allowedEdges EdgeSourceCertifyScorecard then WithScorecard q1 else q1);
          q3 = (if allowedEdges EdgeSourceIsOccurrence then WithOccurrences q2 else q2);
          q4 = (if allowedEdges EdgeSourceCertifyBad
                then WithCertification (\<lambda>c. cert_Type c = TypeBAD) q3 else q3);
          q5 = (if allowedEdges EdgeSourceCertifyGood
                then WithCertification (\<lambda>c. cert_Type c = TypeGOOD) q4 else q4);
          q6 = (if allowedEdges EdgeSourceHasMetadata then WithMetadata q5 else q5);
          q7 = (if allowedEdges EdgeSourcePointOfContact then WithPoc q6 else q6);
          query = (if allowedEdges EdgeSourceCertifyLegal then WithCertifyLegal q7 else q7)
      in
      case SourceName_All E b query of
        Panic p \<Rightarrow> Panic p
      | Err err \<Rightarrow> Err (Wrap ''failed to get source Name for node ID'' err)
      | Ok srcNames \<Rightarrow>
          (case collect srcNames (srcNameNodes allowedEdges) of
             Panic p \<Rightarrow> Panic p
           | Err e \<Rightarrow> Err e
           | Ok outs \<Rightarrow> Ok (concat outs)))"

section \<open>Predicates used in the statements\<close>

definition isOk :: "'a result \<Rightarrow> bool" where
  "isOk r = (case r of Ok _ \<Rightarrow> True | _ \<Rightarrow> False)"

definition hasRecord :: "IDorSourceInput \<Rightarrow> bool" where
  "hasRecord src = (SourceInput src \<noteq> None)"

definition rowOf :: "env \<Rightarrow> IDorSourceInput \<Rightarrow> ent_SourceName" where
  "rowOf E src = sourceNameRow E (the (SourceInput src))"

text \<open>The package a stored HasSourceAt row points to is there, by either foreign key.\<close>

definition hasPackageEdge :: "db \<Rightarrow> HasSourceAtRow \<Rightarrow> bool" where
  "hasPackageEdge d r = (packageVersionOf d r \<noteq> None \<or> allVersionsOf d r \<noteq> None)"

section \<open>A small concrete backend\<close>

text \<open>
  An instance of the parameters and a small store, used to run the definitions on
  concrete inputs: batches of two, pages of two, a natural-key string in the style of
  the helpers, a hash that tags the key, a parser that refuses the empty string, and
  package lookups by name and by version.
\<close>

definition sampleEnv :: env where
  "sampleEnv =
     \<lparr> MaxBatchSize = 2, MaxPageSize = 2,
       SrcServerKey_NameId =
         (\<lambda>s. si_Type s @ '':'' @ si_Namespace s @ '':'' @ si_Name s @ '':''
               @ stringOrEmpty (si_Tag s) @ '':'' @ stringOrEmpty (si_Commit s)),
       generateUUIDKey = (\<lambda>k. ''u-'' @ k),
       uuid_Parse = (\<lambda>t. if t = [] then None else Some t),
       getPkgName =
         (\<lambda>d p. case find (\<lambda>n. pn_Type n = pi_Type p \<and> pn_Name n = pi_Name p) (packageNames d) of
                   None \<Rightarrow> Inl NotFoundError
                 | Some n \<Rightarrow> Inr (pn_ID n)),
       getPkgVersion =
         (\<lambda>d p. case find (\<lambda>v. Some (pv_Version v) = pi_Version p) (packageVersions d) of
                   None \<Rightarrow> Inl NotFoundError
                 | Some v \<Rightarrow> Inr (pv_ID v)),
       IDEQ = (\<lambda>g u. gid_id g = u),
       packageNameQuery = (\<lambda>p d n. ps_Name p = Some (pn_Name n)),
       packageVersionQuery = (\<lambda>p d v. ps_Version p = Some (pv_Version v)) \<rparr>"

definition leftPad :: ent_PackageName where
  "leftPad = PackageNameEnt ''n1'' ''npm'' [] ''left-pad'' []"

definition leftPad130 :: ent_PackageVersion where
  "leftPad130 = PackageVersionEnt ''v1'' ''n1'' ''1.3.0'' [] [] None"

definition storedSource :: ent_SourceName where
  "storedSource =
     \<lparr> sn_ID = ''s1'', sn_Type = ''git'', sn_Namespace = ''gh'', sn_Name = ''pad'',
       sn_Tag = [], sn_Commit = ''AB12'' \<rparr>"

definition sampleDB :: db where
  "sampleDB =
     \<lparr> sourceNames = [storedSource], packageNames = [leftPad], packageVersions = [leftPad130],
       hasSourceAts = [],
       certifications =
         [\<lparr> cert_ID = ''c1'', cert_SourceID = Some ''s1'', cert_Type = TypeBAD,
            cert_Justification = ''bad'' \<rparr>,
          \<lparr> cert_ID = ''c2'', cert_SourceID = Some ''s1'', cert_Type = TypeGOOD,
            cert_Justification = ''good'' \<rparr>],
       scorecards = [], occurrences = [], hasMetadata = [], pointsOfContact = [],
       certifyLegals = [], unavailable = False \<rparr>"

definition guacSpec :: SourceInputSpec where
  "guacSpec =
     \<lparr> si_Type = ''git'', si_Namespace = ''gh'', si_Name = ''guac'', si_Tag = Some ''v1'',
       si_Commit = None \<rparr>"

definition guacSource :: IDorSourceInput where
  "guacSource = \<lparr> SourceNameID = None, SourceInput = Some guacSpec \<rparr>"

definition padInput :: IDorSourceInput where
  "padInput =
     \<lparr> SourceNameID = None,
       SourceInput =
         Some \<lparr> si_Type = ''git'', si_Namespace = ''gh'', si_Name = ''pad'', si_Tag = None,
                si_Commit = Some ''AB12'' \<rparr> \<rparr>"

definition padSource :: IDorSourceInput where
  "padSource = \<lparr> SourceNameID = Some (GlobalID sourcename_Table ''s1''), SourceInput = None \<rparr>"

definition leftPadInput :: IDorPkgInput where
  "leftPadInput =
     \<lparr> PackageNameID = None, PackageVersionID = None,
       PackageInput =
         Some \<lparr> pi_Type = ''npm'', pi_Namespace = None, pi_Name = ''left-pad'',
                pi_Version = Some ''1.3.0'', pi_Qualifiers = [], pi_Subpath = None \<rparr> \<rparr>"

definition unresolvedPkg :: IDorPkgInput where
  "unresolvedPkg = \<lparr> PackageNameID = None, PackageVersionID = None, PackageInput = None \<rparr>"

definition sampleSpec :: HasSourceAtInputSpec where
  "sampleSpec =
     \<lparr> hi_KnownSince = 7, hi_Justification = ''j'', hi_Origin = ''o'', hi_Collector = ''c'',
       hi_DocumentRef = ''d'' \<rparr>"

definition avCreate :: HasSourceAtCreate where
  "avCreate =
     \<lparr> c_Collector = ''c'', c_Origin = ''o'', c_DocumentRef = ''d'', c_Justification = ''j'',
       c_KnownSince = 7, c_SourceID = ''s1'', c_AllVersionsID = Some ''n1'',
       c_PackageVersionID = None \<rparr>"

definition svCreate :: HasSourceAtCreate where
  "svCreate = avCreate\<lparr>c_AllVersionsID := None, c_PackageVersionID := Some ''v1''\<rparr>"

definition row7 :: HasSourceAtRow where
  "row7 = storedRow ''h1'' avCreate"

definition guacRow :: ent_SourceName where
  "guacRow =
     \<lparr> sn_ID = ''u-git:gh:guac:v1:'', sn_Type = ''git'', sn_Namespace = ''gh'',
       sn_Name = ''guac'', sn_Tag = ''v1'', sn_Commit = [] \<rparr>"

text \<open>A store with three HasSourceAt rows and three source names: more than a page.\<close>

definition bigDB :: db where
  "bigDB =
     sampleDB\<lparr> sourceNames := [storedSource, guacRow, guacRow\<lparr>sn_ID := ''s3'', sn_Tag := ''v2''\<rparr>],
               hasSourceAts :=
                 [storedRow ''h1'' avCreate, storedRow ''h2'' svCreate,
                  storedRow ''h3'' (avCreate\<lparr>c_Justification := ''k''\<rparr>)] \<rparr>"

text \<open>The second and the first row of that store, as a query loads them.\<close>

definition svRecord :: ent_HasSourceAt where
  "svRecord = getHasSourceAtObject bigDB (storedRow ''h2'' svCreate)"

definition avRecord :: ent_HasSourceAt where
  "avRecord = getHasSourceAtObject bigDB (storedRow ''h1'' avCreate)"

text \<open>A second package name, a store that holds both, and an input that resolves to it.\<close>

definition rightPad :: ent_PackageName where
  "rightPad = PackageNameEnt ''n2'' ''npm'' [] ''right-pad'' []"

definition twoPkgDB :: db where
  "twoPkgDB = sampleDB\<lparr>packageNames := [leftPad, rightPad]\<rparr>"

definition rightPadInput :: IDorPkgInput where
  "rightPadInput =
     \<lparr> PackageNameID = None, PackageVersionID = None,
       PackageInput =
         Some \<lparr> pi_Type = ''npm'', pi_Namespace = None, pi_Name = ''right-pad'',
                pi_Version = None, pi_Qualifiers = [], pi_Subpath = None \<rparr> \<rparr>"

section \<open>Properties\<close>

subsection \<open>Single upserts of a source\<close>

lemma generateSourceNameCreate_Some:
  "SourceInput src = Some s \<Longrightarrow>
   generateSourceNameCreate (generateUUIDKey E (SrcServerKey_NameId E s)) src = Ok (sourceNameRow E s)"
  by (simp add: generateSourceNameCreate_def sourceNameRow_def)

lemma sourceNameConflict_refl [simp]: "sourceNameConflict r r"
  by (simp add: sourceNameConflict_def)

lemma upsertSource_present:
  assumes "SourceInput src = Some s" and "\<not> unavailable b"
    and "idUnclaimed (sourceNameRow E s) (sourceNames b)"
  shows "upsertSource E b src =
           (Ok (sourceIDsOf (generateUUIDKey E (SrcServerKey_NameId E s))),
            if list_ex (sourceNameConflict (sourceNameRow E s)) (sourceNames b) then b
            else b\<lparr>sourceNames := sourceNames b @ [sourceNameRow E s]\<rparr>)"
proof -
  have pk: "\<not> list_ex (sourceNameConflict (sourceNameRow E s)) (sourceNames b) \<Longrightarrow>
            \<not> list_ex (\<lambda>x. sn_ID x = sn_ID (sourceNameRow E s)) (sourceNames b)"
    using assms(3) by (auto simp: idUnclaimed_def list_all_iff list_ex_iff)
  show ?thesis
    using assms(1,2) pk
    by (simp add: upsertSource_def generateSourceNameCreate_Some execCreateSourceName_def
        insertSourceName_def)
qed

lemma IngestSource_present:
  assumes "SourceInput src = Some s" and "\<not> unavailable b"
    and "idUnclaimed (sourceNameRow E s) (sourceNames b)"
  shows "IngestSource E b src =
           (Ok (sourceIDsOf (generateUUIDKey E (SrcServerKey_NameId E s))),
            if list_ex (sourceNameConflict (sourceNameRow E s)) (sourceNames b) then b
            else b\<lparr>sourceNames := sourceNames b @ [sourceNameRow E s]\<rparr>)"
  by (simp add: IngestSource_def WithinTX_def upsertSource_present[OF assms])

lemma IngestSourceEach_stored:
  assumes "SourceInput src = Some s" and "\<not> unavailable b"
    and "list_ex (sourceNameConflict (sourceNameRow E s)) (sourceNames b)"
    and "idUnclaimed (sourceNameRow E s) (sourceNames b)"
  shows "IngestSourceEach E b (replicate n src) =
           (replicate n (Ok (sourceIDsOf (generateUUIDKey E (SrcServerKey_NameId E s)))), b)"
  by (induction n) (simp_all add: IngestSource_present[OF assms(1,2,4)] assms(3))

lemma IngestSource_is_upsertSource: "IngestSource E b src = upsertSource E b src"
  by (simp add: IngestSource_def WithinTX_def upsertSource_def generateSourceNameCreate_def
        execCreateSourceName_def insertSourceName_def Let_def split: option.split)

lemma IngestSourceEach_is_upsertSourceEach:
  "IngestSourceEach E b srcs = upsertSourceEach E b srcs"
  by (induction srcs arbitrary: b) (simp_all add: IngestSource_is_upsertSource)

lemma idUnclaimed_append:
  "idUnclaimed r rows \<Longrightarrow> idUnclaimed r (rows @ [r])"
  by (simp add: idUnclaimed_def)

text \<open>
  Claim C1.  Ingesting the same source record \<open>n\<close> times through \<^verbatim>\<open>IngestSource\<close>
  raises no error on the natural-key conflict, stores at most one new SourceName row, and
  every call returns the same triple of identifiers, the one computed from the natural
  key of the record; calling \<^verbatim>\<open>upsertSource\<close> directly does the same.  The store is
  available and no stored row holds the record's identifier under another natural key.
\<close>

theorem source_ingestion_idempotent:
  assumes "SourceInput src = Some s" and "\<not> unavailable b"
    and "idUnclaimed (sourceNameRow E s) (sourceNames b)"
  shows "fst (IngestSourceEach E b (replicate n src)) =
           replicate n (Ok (sourceIDsOf (generateUUIDKey E (SrcServerKey_NameId E s))))
       \<and> sourceNames (snd (IngestSourceEach E b (replicate n src))) =
           (if n = 0 \<or> list_ex (sourceNameConflict (sourceNameRow E s)) (sourceNames b)
            then sourceNames b else sourceNames b @ [sourceNameRow E s])
       \<and> upsertSourceEach E b (replicate n src) = IngestSourceEach E b (replicate n src)"
proof -
  have core: "fst (IngestSourceEach E b (replicate n src)) =
           replicate n (Ok (sourceIDsOf (generateUUIDKey E (SrcServerKey_NameId E s))))
       \<and> sourceNames (snd (IngestSourceEach E b (replicate n src))) =
           (if n = 0 \<or> list_ex (sourceNameConflict (sourceNameRow E s)) (sourceNames b)
            then sourceNames b else sourceNames b @ [sourceNameRow E s])"
  proof (cases n)
    case 0
    then show ?thesis by simp
  next
    case (Suc m)
    let ?r = "sourceNameRow E s"
    show ?thesis
    proof (cases "list_ex (sourceNameConflict ?r) (sourceNames b)")
      case True
      then show ?thesis
        using IngestSourceEach_stored[OF assms(1,2) True assms(3), of n] Suc by simp
    next
      case False
      let ?b' = "b\<lparr>sourceNames := sourceNames b @ [?r]\<rparr>"
      have first: "IngestSource E b src =
          (Ok (sourceIDsOf (generateUUIDKey E (SrcServerKey_NameId E s))), ?b')"
        using IngestSource_present[OF assms] False by simp
      have rest: "IngestSourceEach E ?b' (replicate m src) =
          (replicate m (Ok (sourceIDsOf (generateUUIDKey E (SrcServerKey_NameId E s)))), ?b')"
        by (rule IngestSourceEach_stored[OF assms(1)])
           (use assms(2,3) in \<open>simp_all add: idUnclaimed_append\<close>)
      show ?thesis using Suc first rest False by simp
    qed
  qed
  then show ?thesis
    by (simp add: IngestSourceEach_is_upsertSourceEach)
qed

theorem source_ingestion_idempotent_witness:
  "SourceInput guacSource = Some guacSpec
   \<and> \<not> unavailable sampleDB
   \<and> idUnclaimed (sourceNameRow sampleEnv guacSpec) (sourceNames sampleDB)
   \<and> fst (IngestSourceEach sampleEnv sampleDB (replicate 3 guacSource)) =
         replicate 3 (Ok (sourceIDsOf ''u-git:gh:guac:v1:''))
   \<and> sourceNames (snd (IngestSourceEach sampleEnv sampleDB (replicate 3 guacSource))) =
         [storedSource,
          \<lparr> sn_ID = ''u-git:gh:guac:v1:'', sn_Type = ''git'', sn_Namespace = ''gh'',
            sn_Name = ''guac'', sn_Tag = ''v1'', sn_Commit = [] \<rparr>]"
proof -
  have h1: "SourceInput guacSource = Some guacSpec"
    by (simp add: guacSource_def)
  have h2: "\<not> unavailable sampleDB"
    by (simp add: sampleDB_def)
  have row: "sourceNameRow sampleEnv guacSpec =
               \<lparr> sn_ID = ''u-git:gh:guac:v1:'', sn_Type = ''git'', sn_Namespace = ''gh'',
                 sn_Name = ''guac'', sn_Tag = ''v1'', sn_Commit = [] \<rparr>"
    by (simp add: sourceNameRow_def sampleEnv_def guacSpec_def stringOrEmpty_def)
  have h3: "idUnclaimed (sourceNameRow sampleEnv guacSpec) (sourceNames sampleDB)"
    by (simp add: row idUnclaimed_def sampleDB_def storedSource_def)
  have fresh: "\<not> list_ex (sourceNameConflict (sourceNameRow sampleEnv guacSpec))
                     (sourceNames sampleDB)"
    by (simp add: row sampleDB_def storedSource_def sourceNameConflict_def)
  have key: "generateUUIDKey sampleEnv (SrcServerKey_NameId sampleEnv guacSpec) =
               ''u-git:gh:guac:v1:''"
    by (simp add: sampleEnv_def guacSpec_def stringOrEmpty_def)
  have stored: "sourceNames sampleDB = [storedSource]"
    by (simp add: sampleDB_def)
  show ?thesis
    using source_ingestion_idempotent[OF h1 h2 h3, of 3] h1 h2 h3 fresh
    by (simp add: key row stored)
qed

subsection \<open>The bulk path against single upserts\<close>

lemma isOk_simps [simp]: "isOk (Ok x)" "\<not> isOk (Err e)" "\<not> isOk (Panic p)"
  by (simp_all add: isOk_def)

lemma chunks_of_concat: "0 < n \<Longrightarrow> concat (chunks_of n xs) = xs"
  by (induction n xs rule: chunks_of.induct) (subst chunks_of.simps, simp)

lemma chunks_of_map: "chunks_of n (map f xs) = map (map f) (chunks_of n xs)"
proof (induction n xs rule: chunks_of.induct)
  case (1 n xs)
  show ?case
  proof (cases "n = 0 \<or> xs = []")
    case True
    then show ?thesis by (auto simp: chunks_of.simps[of n "[]"] chunks_of.simps[of 0])
  next
    case False
    then have "chunks_of n (map f (drop n xs)) = map (map f) (chunks_of n (drop n xs))"
      using 1 by simp
    then show ?thesis
      using False
      by (subst chunks_of.simps, subst (2) chunks_of.simps) (simp add: take_map drop_map)
  qed
qed

lemma sourceNameCreates_present:
  "list_all hasRecord srcs \<Longrightarrow>
   sourceNameCreates E (map Some srcs) = Ok (map (rowOf E) srcs, map (sn_ID \<circ> rowOf E) srcs)"
  by (induction srcs)
     (auto simp: hasRecord_def rowOf_def generateSourceNameCreate_def sourceNameRow_def Let_def)

lemma sourceNameCreates_absent:
  "\<not> list_all hasRecord srcs \<Longrightarrow> \<not> isOk (sourceNameCreates E (map Some srcs))"
  by (induction srcs)
     (auto simp: hasRecord_def generateSourceNameCreate_def Let_def
           split: option.splits result.splits)

lemma insertSourceName_not_ErrNoRows:
  "insertSourceName b r = (Failed e, b') \<Longrightarrow> e \<noteq> ErrNoRows"
  by (auto simp: insertSourceName_def split: if_splits)

lemma upsertSource_via_insert:
  assumes "hasRecord src"
  shows "upsertSource E b src =
     (case insertSourceName b (rowOf E src) of
        (Failed e, b') \<Rightarrow> (Err (Wrap ''upsert source name'' e), b')
      | (_, b') \<Rightarrow> (Ok (sourceIDsOf (sn_ID (rowOf E src))), b'))"
proof -
  obtain s where s: "SourceInput src = Some s" using assms by (auto simp: hasRecord_def)
  obtain o' b' where ins: "insertSourceName b (sourceNameRow E s) = (o', b')"
    by (cases "insertSourceName b (sourceNameRow E s)")
  have gen: "generateSourceNameCreate (generateUUIDKey E (SrcServerKey_NameId E s)) src
               = Ok (sourceNameRow E s)"
    using s by (simp add: generateSourceNameCreate_def sourceNameRow_def)
  have idr: "sn_ID (sourceNameRow E s) = generateUUIDKey E (SrcServerKey_NameId E s)"
    by (simp add: sourceNameRow_def)
  show ?thesis
    using s ins gen idr insertSourceName_not_ErrNoRows[of b "sourceNameRow E s" _ b']
    by (cases o') (simp_all add: upsertSource_def rowOf_def execCreateSourceName_def)
qed

lemma upsertSource_absent:
  "\<not> hasRecord src \<Longrightarrow> upsertSource E b src = (Panic NilPointerDereference, b)"
  by (simp add: upsertSource_def hasRecord_def)

lemma insertAllSourceNames_append:
  "insertAllSourceNames b (xs @ ys) =
     (case insertAllSourceNames b xs of Inl e \<Rightarrow> Inl e | Inr b' \<Rightarrow> insertAllSourceNames b' ys)"
  by (induction xs arbitrary: b) (auto split: prod.splits insert_outcome.splits)

lemma each_present:
  "list_all hasRecord srcs \<Longrightarrow>
   (case insertAllSourceNames b (map (rowOf E) srcs) of
      Inr b' \<Rightarrow> upsertSourceEach E b srcs = (map (\<lambda>s. Ok (sourceIDsOf (sn_ID (rowOf E s)))) srcs, b')
    | Inl e \<Rightarrow> \<not> list_all isOk (fst (upsertSourceEach E b srcs)))"
proof (induction srcs arbitrary: b)
  case Nil
  then show ?case by simp
next
  case (Cons src srcs)
  then have h: "hasRecord src" and hs: "list_all hasRecord srcs" by simp_all
  obtain o' b1 where ins: "insertSourceName b (rowOf E src) = (o', b1)"
    by (cases "insertSourceName b (rowOf E src)")
  show ?case
  proof (cases o')
    case (Failed e)
    then show ?thesis using ins upsertSource_via_insert[OF h, of E b]
      by (simp split: prod.splits)
  next
    case Inserted
    then show ?thesis
      using ins upsertSource_via_insert[OF h, of E b] Cons.IH[OF hs, of b1]
      by (auto split: prod.splits sum.splits)
  next
    case Ignored
    then show ?thesis
      using ins upsertSource_via_insert[OF h, of E b] Cons.IH[OF hs, of b1]
      by (auto split: prod.splits sum.splits)
  qed
qed

lemma each_absent:
  "\<not> list_all hasRecord srcs \<Longrightarrow> \<not> list_all isOk (fst (upsertSourceEach E b srcs))"
proof (induction srcs arbitrary: b)
  case Nil
  then show ?case by simp
next
  case (Cons src srcs)
  show ?case
  proof (cases "hasRecord src")
    case True
    then have n: "\<not> list_all hasRecord srcs" using Cons.prems by simp
    obtain r b1 where u: "upsertSource E b src = (r, b1)"
      by (cases "upsertSource E b src")
    have "fst (upsertSourceEach E b (src # srcs)) = r # fst (upsertSourceEach E b1 srcs)"
      using u by (simp split: prod.splits)
    then show ?thesis using Cons.IH[OF n, of b1] by simp
  next
    case False
    then show ?thesis by (simp add: upsertSource_absent split: prod.splits)
  qed
qed

lemma batches_present:
  "list_all hasRecord (concat batches) \<Longrightarrow>
   (case insertAllSourceNames b (map (rowOf E) (concat batches)) of
      Inr b' \<Rightarrow> upsertBulkSource_batches E b (map (map Some) batches) acc =
                 (Ok (acc @ map (sn_ID \<circ> rowOf E) (concat batches)), b')
    | Inl e \<Rightarrow> \<not> isOk (fst (upsertBulkSource_batches E b (map (map Some) batches) acc)))"
proof (induction batches arbitrary: b acc)
  case Nil
  then show ?case by simp
next
  case (Cons srcs batches)
  then have h: "list_all hasRecord srcs" and hs: "list_all hasRecord (concat batches)"
    by simp_all
  note cr = sourceNameCreates_present[OF h, of E]
  show ?case
  proof (cases "insertAllSourceNames b (map (rowOf E) srcs)")
    case (Inl e)
    then have "srcs \<noteq> []" by auto
    then show ?thesis
      using Inl cr by (simp add: insertAllSourceNames_append execCreateBulkSourceNames_def)
  next
    case (Inr b1)
    have ex: "execCreateBulkSourceNames b (map (rowOf E) srcs) = (None, b1)"
      using Inr by (auto simp: execCreateBulkSourceNames_def)
    show ?thesis
      using Inr cr ex Cons.IH[OF hs, of b1 "acc @ map (sn_ID \<circ> rowOf E) srcs"]
      by (simp add: insertAllSourceNames_append split: sum.splits)
  qed
qed

lemma batches_absent:
  "\<not> list_all hasRecord (concat batches) \<Longrightarrow>
   \<not> isOk (fst (upsertBulkSource_batches E b (map (map Some) batches) acc))"
proof (induction batches arbitrary: b acc)
  case Nil
  then show ?case by simp
next
  case (Cons srcs batches)
  show ?case
  proof (cases "list_all hasRecord srcs")
    case False
    from sourceNameCreates_absent[OF this, of E] show ?thesis
      by (cases "sourceNameCreates E (map Some srcs)") simp_all
  next
    case True
    then have n: "\<not> list_all hasRecord (concat batches)" using Cons.prems by simp
    note cr = sourceNameCreates_present[OF True, of E]
    obtain eo b1 where ex: "execCreateBulkSourceNames b (map (rowOf E) srcs) = (eo, b1)"
      by (cases "execCreateBulkSourceNames b (map (rowOf E) srcs)")
    show ?thesis
      using cr ex Cons.IH[OF n, of b1 "acc @ map (sn_ID \<circ> rowOf E) srcs"]
      by (cases eo) simp_all
  qed
qed

lemma upsertBulkSource_not_ok:
  assumes "0 < MaxBatchSize E"
    and "\<not> isOk (fst (upsertBulkSource_batches E b (map (map Some) (chunks_of (MaxBatchSize E) srcs)) []))"
  shows "\<not> isOk (fst (upsertBulkSource E b (map Some srcs)))"
proof -
  have ch: "chunk (map Some srcs) (MaxBatchSize E) = Ok (map (map Some) (chunks_of (MaxBatchSize E) srcs))"
    using assms(1) by (simp add: chunk_def chunks_of_map)
  obtain r b2 where l: "upsertBulkSource_batches E b (map (map Some) (chunks_of (MaxBatchSize E) srcs)) [] = (r, b2)"
    by (cases "upsertBulkSource_batches E b (map (map Some) (chunks_of (MaxBatchSize E) srcs)) []")
  show ?thesis using assms(2) l by (cases r) (simp_all add: upsertBulkSource_def ch)
qed

lemma agree_on_failure:
  assumes "\<not> isOk (fst bulk)" and "\<not> list_all isOk each"
  shows "isOk (fst bulk) = list_all isOk each
       \<and> (\<forall>ids b'. bulk = (Ok ids, b') \<longrightarrow> Q ids b')"
proof -
  have "bulk \<noteq> (Ok ids, b')" for ids b'
    using assms(1) by (cases bulk) auto
  then show ?thesis using assms by simp
qed

lemma agree_on_success:
  assumes "bulk = (Ok ids, b1)" and "each = (map Ok ids, b1)"
  shows "isOk (fst bulk) = list_all isOk (fst each)
       \<and> (\<forall>ids' b'. bulk = (Ok ids', b') \<longrightarrow>
             each = (map Ok ids', b') \<and> set ids' = {i. Ok i \<in> set (fst each)})"
  using assms by (auto simp: list_all_iff)

text \<open>
  Claim C8.  With a positive batch size, the bulk path \<^verbatim>\<open>upsertBulkSource\<close> succeeds
  exactly when every one of the sequential single upserts \<^verbatim>\<open>upsertSource\<close> of the same
  inputs succeeds, and then both return the same identifiers (in the same order, hence
  the same set) and leave the same store.  Inputs that do not conflict with one another
  are a special case.
\<close>

theorem bulk_matches_sequential:
  assumes "0 < MaxBatchSize E"
  shows "isOk (fst (upsertBulkSource E b (map Some srcs)))
           = list_all isOk (fst (upsertSourceEach E b srcs))
       \<and> (\<forall>ids b'. upsertBulkSource E b (map Some srcs) = (Ok ids, b') \<longrightarrow>
             upsertSourceEach E b srcs = (map Ok ids, b')
             \<and> set ids = {i. Ok i \<in> set (fst (upsertSourceEach E b srcs))})"
proof -
  let ?n = "MaxBatchSize E"
  have ch: "chunk (map Some srcs) ?n = Ok (map (map Some) (chunks_of ?n srcs))"
    using assms by (simp add: chunk_def chunks_of_map)
  have cc: "concat (chunks_of ?n srcs) = srcs"
    using assms by (rule chunks_of_concat)
  show ?thesis
  proof (cases "list_all hasRecord srcs")
    case False
    have "\<not> isOk (fst (upsertBulkSource_batches E b (map (map Some) (chunks_of ?n srcs)) []))"
      using batches_absent[where batches="chunks_of ?n srcs" and E=E and b=b and acc="[]"] False cc by simp
    then have "\<not> isOk (fst (upsertBulkSource E b (map Some srcs)))"
      by (rule upsertBulkSource_not_ok[OF assms])
    moreover have "\<not> list_all isOk (fst (upsertSourceEach E b srcs))"
      using each_absent[OF False] .
    ultimately show ?thesis by (rule agree_on_failure)
  next
    case True
    note bp = batches_present[where batches="chunks_of ?n srcs" and E=E and b=b and acc="[]", unfolded cc, OF True]
    note ep = each_present[OF True, where b=b and E=E]
    show ?thesis
    proof (cases "insertAllSourceNames b (map (rowOf E) srcs)")
      case (Inl e)
      have "\<not> isOk (fst (upsertBulkSource_batches E b (map (map Some) (chunks_of ?n srcs)) []))"
        using bp Inl by simp
      then have "\<not> isOk (fst (upsertBulkSource E b (map Some srcs)))"
        by (rule upsertBulkSource_not_ok[OF assms])
      moreover have "\<not> list_all isOk (fst (upsertSourceEach E b srcs))"
        using ep Inl by simp
      ultimately show ?thesis by (rule agree_on_failure)
    next
      case (Inr b1)
      have bulk: "upsertBulkSource E b (map Some srcs) =
                    (Ok (map (\<lambda>s. sourceIDsOf (sn_ID (rowOf E s))) srcs), b1)"
        using bp Inr by (simp add: upsertBulkSource_def ch)
      have each: "upsertSourceEach E b srcs =
                    (map (\<lambda>s. Ok (sourceIDsOf (sn_ID (rowOf E s)))) srcs, b1)"
        using ep Inr by simp
      have each': "upsertSourceEach E b srcs =
                    (map Ok (map (\<lambda>s. sourceIDsOf (sn_ID (rowOf E s))) srcs), b1)"
        using each by (simp add: comp_def)
      show ?thesis using bulk each' by (rule agree_on_success)
    qed
  qed
qed

theorem bulk_matches_sequential_witness:
  "0 < MaxBatchSize sampleEnv
   \<and> fst (upsertBulkSource sampleEnv sampleDB (map Some [guacSource, padInput, guacSource])) =
         Ok [sourceIDsOf ''u-git:gh:guac:v1:'', sourceIDsOf ''u-git:gh:pad::AB12'',
             sourceIDsOf ''u-git:gh:guac:v1:'']
   \<and> fst (upsertSourceEach sampleEnv sampleDB [guacSource, padInput, guacSource]) =
         [Ok (sourceIDsOf ''u-git:gh:guac:v1:''), Ok (sourceIDsOf ''u-git:gh:pad::AB12''),
          Ok (sourceIDsOf ''u-git:gh:guac:v1:'')]
   \<and> {i. Ok i \<in> set (fst (upsertSourceEach sampleEnv sampleDB [guacSource, padInput, guacSource]))} =
         {sourceIDsOf ''u-git:gh:guac:v1:'', sourceIDsOf ''u-git:gh:pad::AB12''}"
proof -
  let ?srcs = "[guacSource, padInput, guacSource]"
  let ?ids = "[sourceIDsOf ''u-git:gh:guac:v1:'', sourceIDsOf ''u-git:gh:pad::AB12'',
               sourceIDsOf ''u-git:gh:guac:v1:'']"
  have h: "0 < MaxBatchSize sampleEnv"
    by (simp add: sampleEnv_def)
  have run: "fst (upsertBulkSource sampleEnv sampleDB (map Some ?srcs)) = Ok ?ids"
    by code_simp
  then have bulk: "upsertBulkSource sampleEnv sampleDB (map Some ?srcs) =
                     (Ok ?ids, snd (upsertBulkSource sampleEnv sampleDB (map Some ?srcs)))"
    by (metis prod.collapse)
  from bulk_matches_sequential[OF h, of sampleDB ?srcs] bulk
  have each: "upsertSourceEach sampleEnv sampleDB ?srcs =
                (map Ok ?ids, snd (upsertBulkSource sampleEnv sampleDB (map Some ?srcs)))"
    and st: "set ?ids = {i. Ok i \<in> set (fst (upsertSourceEach sampleEnv sampleDB ?srcs))}"
    by blast+
  have "fst (upsertSourceEach sampleEnv sampleDB ?srcs) = map Ok ?ids"
    using each by simp
  then show ?thesis
    using h run st[symmetric] by auto
qed

subsection \<open>Match types and conflict partitions\<close>

lemma holds_conflictWhereFor:
  "holds (conflictWhereFor m) c =
     (if Pkg m = PkgMatchTypeAllVersions
      then c_PackageVersionID c = None \<and> c_AllVersionsID c \<noteq> None
      else c_PackageVersionID c \<noteq> None \<and> c_AllVersionsID c = None)"
  by (simp add: conflictWhereFor_def columnValue_def split: option.splits)

lemma generateHasSourceAtCreate_shape:
  assumes "generateHasSourceAtCreate E tx pkg src m hs = Ok c"
  shows "(if Pkg m = PkgMatchTypeAllVersions
          then c_AllVersionsID c \<noteq> None \<and> c_PackageVersionID c = None
          else c_AllVersionsID c = None \<and> c_PackageVersionID c \<noteq> None)
       \<and> (\<exists>h. hs = Some h \<and> c_Collector c = hi_Collector h \<and> c_Origin c = hi_Origin h
              \<and> c_DocumentRef c = hi_DocumentRef h \<and> c_Justification c = hi_Justification h
              \<and> c_KnownSince c = hi_KnownSince h)"
  using assms
  by (auto simp: generateHasSourceAtCreate_def Let_def
           split: option.splits result.splits if_splits)

lemma conflictColumns_set:
  "generateHasSourceAtCreate E tx pkg src m hs = Ok c \<Longrightarrow>
   list_all (\<lambda>col. columnValue c col \<noteq> SqlNull) (conflictColumnsFor m)"
  using generateHasSourceAtCreate_shape[of E tx pkg src m hs c]
  by (auto simp: conflictColumnsFor_def hasSourceAtConflictColumns_def columnValue_def
           split: if_splits)

lemma storedRow_fields [simp]:
  "c_Collector (storedRow i c) = c_Collector c"
  "c_Origin (storedRow i c) = c_Origin c"
  "c_DocumentRef (storedRow i c) = c_DocumentRef c"
  "c_Justification (storedRow i c) = c_Justification c"
  "c_KnownSince (storedRow i c) = c_KnownSince c"
  "c_SourceID (storedRow i c) = c_SourceID c"
  "c_AllVersionsID (storedRow i c) = c_AllVersionsID c"
  "c_PackageVersionID (storedRow i c) = c_PackageVersionID c"
  "hs_ID (storedRow i c) = i"
  by (simp_all add: storedRow_def)

lemma conflictsWith_fields:
  assumes "conflictsWith (conflictColumnsFor m) w c x"
  shows "c_Collector x = c_Collector c \<and> c_Origin x = c_Origin c
       \<and> c_DocumentRef x = c_DocumentRef c \<and> c_Justification x = c_Justification c
       \<and> c_KnownSince x = c_KnownSince c \<and> c_SourceID x = c_SourceID c \<and> holds w x"
  using assms
  by (simp add: conflictsWith_def conflictColumnsFor_def hasSourceAtConflictColumns_def
        columnValue_def split: if_splits)

lemma insertHasSourceAt_row:
  assumes "insertHasSourceAt d (conflictColumnsFor m) (conflictWhereFor m) newID c = (out, d')"
    and "\<And>e. out \<noteq> Refused e" and "holds (conflictWhereFor m) c"
  shows "\<exists>r. r \<in> set (hasSourceAts d')
           \<and> hs_ID r = (case out of Existing i \<Rightarrow> i | _ \<Rightarrow> newID)
           \<and> holds (conflictWhereFor m) r
           \<and> c_Collector r = c_Collector c \<and> c_Origin r = c_Origin c
           \<and> c_DocumentRef r = c_DocumentRef c \<and> c_Justification r = c_Justification c
           \<and> c_KnownSince r = c_KnownSince c \<and> c_SourceID r = c_SourceID c"
proof (cases "unavailable d")
  case True
  then show ?thesis using assms(1,2) by (auto simp: insertHasSourceAt_def)
next
  case False
  show ?thesis
  proof (cases "find (conflictsWith (conflictColumnsFor m) (conflictWhereFor m) c) (hasSourceAts d)")
    case (Some x)
    then have xin: "x \<in> set (hasSourceAts d)"
      and cw: "conflictsWith (conflictColumnsFor m) (conflictWhereFor m) c x"
      by (auto simp: find_Some_iff)
    have "out = Existing (hs_ID x)" "d' = d"
      using assms(1) False Some by (simp_all add: insertHasSourceAt_def)
    then show ?thesis
      using xin conflictsWith_fields[OF cw] by auto
  next
    case None
    show ?thesis
    proof (cases "list_ex (\<lambda>x. hs_ID x = newID) (hasSourceAts d)")
      case True
      then show ?thesis using assms(1,2) False None
        by (auto simp: insertHasSourceAt_def)
    next
      case nodup: False
      have o: "out = Stored" and d': "d' = d\<lparr>hasSourceAts := hasSourceAts d @ [storedRow newID c]\<rparr>"
        using assms(1) False None nodup by (simp_all add: insertHasSourceAt_def)
      have h: "holds (conflictWhereFor m) (storedRow newID c)"
        using assms(3) by (simp add: holds_conflictWhereFor)
      show ?thesis
        by (rule exI[of _ "storedRow newID c"]) (simp add: o d' h)
    qed
  qed
qed

lemma insertHasSourceAt_keeps:
  assumes "insertHasSourceAt d cols w newID c = (out, d')"
  shows "set (hasSourceAts d) \<subseteq> set (hasSourceAts d')
       \<and> (distinct (map hs_ID (hasSourceAts d)) \<longrightarrow> distinct (map hs_ID (hasSourceAts d')))"
  using assms
  by (auto simp: insertHasSourceAt_def list_ex_iff split: if_splits option.splits)

lemma upsertHasSourceAt_row:
  assumes "upsertHasSourceAt E tx newID pkg m src spec = (Ok ident, tx')"
  shows "(\<exists>r. r \<in> set (hasSourceAts tx') \<and> hs_ID r = ident
            \<and> holds (conflictWhereFor m) r
            \<and> c_Collector r = hi_Collector spec \<and> c_Origin r = hi_Origin spec
            \<and> c_DocumentRef r = hi_DocumentRef spec \<and> c_Justification r = hi_Justification spec
            \<and> c_KnownSince r = hi_KnownSince spec)
       \<and> set (hasSourceAts tx) \<subseteq> set (hasSourceAts tx')
       \<and> (distinct (map hs_ID (hasSourceAts tx)) \<longrightarrow> distinct (map hs_ID (hasSourceAts tx')))"
proof -
  obtain c where gen: "generateHasSourceAtCreate E tx (Some pkg) (Some src) m (Some spec) = Ok c"
    using assms
    by (cases "generateHasSourceAtCreate E tx (Some pkg) (Some src) m (Some spec)")
       (auto simp: upsertHasSourceAt_def)
  obtain out d' where ins:
    "insertHasSourceAt tx (conflictColumnsFor m) (conflictWhereFor m) newID c = (out, d')"
    by (cases "insertHasSourceAt tx (conflictColumnsFor m) (conflictWhereFor m) newID c")
  have res: "(\<forall>e. out \<noteq> Refused e) \<and> tx' = d'
             \<and> ident = (case out of Existing i \<Rightarrow> i | _ \<Rightarrow> newID)"
    using assms gen ins
    by (cases out) (auto simp: upsertHasSourceAt_def execUpsertHasSourceAt_def)
  note shape = generateHasSourceAtCreate_shape[OF gen]
  have hc: "holds (conflictWhereFor m) c"
    using shape by (simp add: holds_conflictWhereFor split: if_splits)
  from insertHasSourceAt_row[OF ins _ hc] res shape insertHasSourceAt_keeps[OF ins]
  show ?thesis by auto
qed

lemma partitions_exclusive:
  "Pkg m1 \<noteq> Pkg m2 \<Longrightarrow> holds (conflictWhereFor m1) r \<Longrightarrow> \<not> holds (conflictWhereFor m2) r"
  by (cases "Pkg m1"; cases "Pkg m2") (auto simp: holds_conflictWhereFor)

text \<open>
  The conflict relation of an upsert, spelt out: a stored row conflicts with a new one
  exactly when both lie in the partition of the match type and agree on the six
  natural-key columns and on the package foreign key of that partition.
\<close>

lemma conflictsWith_iff:
  "conflictsWith (conflictColumnsFor m) (conflictWhereFor m) c x =
     (c_SourceID x = c_SourceID c \<and> c_Justification x = c_Justification c
      \<and> c_KnownSince x = c_KnownSince c \<and> c_Collector x = c_Collector c
      \<and> c_Origin x = c_Origin c \<and> c_DocumentRef x = c_DocumentRef c
      \<and> (if Pkg m = PkgMatchTypeAllVersions
          then c_AllVersionsID x = c_AllVersionsID c \<and> c_AllVersionsID c \<noteq> None
               \<and> c_PackageVersionID x = None \<and> c_PackageVersionID c = None
          else c_PackageVersionID x = c_PackageVersionID c \<and> c_PackageVersionID c \<noteq> None
               \<and> c_AllVersionsID x = None \<and> c_AllVersionsID c = None))"
  by (auto simp: conflictsWith_def conflictColumnsFor_def conflictWhereFor_def
        hasSourceAtConflictColumns_def columnValue_def split: option.splits)

lemma find_append_None:
  "find P xs = None \<Longrightarrow> find P (xs @ ys) = find P ys"
  by (induction xs) (auto split: if_splits)

lemma upsertHasSourceAt_via_insert:
  assumes "generateHasSourceAtCreate E tx (Some pkg) (Some src) m (Some spec) = Ok c"
  shows "upsertHasSourceAt E tx newID pkg m src spec =
           (case execUpsertHasSourceAt tx (conflictColumnsFor m) (conflictWhereFor m) newID c of
              (Err err, tx') \<Rightarrow> (Err (Wrap ''upsert hasSourceAt node'' err), tx')
            | (Panic p, tx') \<Rightarrow> (Panic p, tx')
            | (Ok ident, tx') \<Rightarrow> (Ok ident, tx'))"
  using assms by (simp add: upsertHasSourceAt_def)

lemma execUpsert_stored_row:
  assumes ex: "execUpsertHasSourceAt tx (conflictColumnsFor m) (conflictWhereFor m) newID c = (Ok ident, tx')"
    and self: "conflictsWith (conflictColumnsFor m) (conflictWhereFor m) c (storedRow newID c)"
  shows "(\<exists>r. r \<in> set (hasSourceAts tx') \<and> hs_ID r = ident
            \<and> c_AllVersionsID r = c_AllVersionsID c
            \<and> c_PackageVersionID r = c_PackageVersionID c)
       \<and> (\<forall>new2. execUpsertHasSourceAt tx' (conflictColumnsFor m) (conflictWhereFor m) new2 c
                    = (Ok ident, tx'))"
proof -
  let ?P = "conflictsWith (conflictColumnsFor m) (conflictWhereFor m) c"
  have av: "\<not> unavailable tx"
    using ex by (auto simp: execUpsertHasSourceAt_def insertHasSourceAt_def)
  show ?thesis
  proof (cases "find ?P (hasSourceAts tx)")
    case (Some x)
    then have xin: "x \<in> set (hasSourceAts tx)" and cw: "?P x"
      by (auto simp: find_Some_iff)
    have r: "ident = hs_ID x" "tx' = tx"
      using ex av Some by (simp_all add: execUpsertHasSourceAt_def insertHasSourceAt_def)
    have fk: "c_AllVersionsID x = c_AllVersionsID c \<and> c_PackageVersionID x = c_PackageVersionID c"
      using cw by (auto simp: conflictsWith_iff split: if_splits)
    have again: "execUpsertHasSourceAt tx (conflictColumnsFor m) (conflictWhereFor m) new2 c
                   = (Ok (hs_ID x), tx)" for new2
      using av Some by (simp add: execUpsertHasSourceAt_def insertHasSourceAt_def)
    show ?thesis using xin fk again unfolding r by blast
  next
    case None
    have nodup: "\<not> list_ex (\<lambda>x. hs_ID x = newID) (hasSourceAts tx)"
      using ex av None
      by (auto simp: execUpsertHasSourceAt_def insertHasSourceAt_def split: if_splits)
    have r: "ident = newID" "tx' = tx\<lparr>hasSourceAts := hasSourceAts tx @ [storedRow newID c]\<rparr>"
      using ex av None nodup by (auto simp: execUpsertHasSourceAt_def insertHasSourceAt_def)
    have f: "find ?P (hasSourceAts tx') = Some (storedRow newID c)"
      using None self by (simp add: r find_append_None)
    have again: "execUpsertHasSourceAt tx' (conflictColumnsFor m) (conflictWhereFor m) new2 c
                   = (Ok ident, tx')" for new2
      using av f by (simp add: execUpsertHasSourceAt_def insertHasSourceAt_def r)
    have "storedRow newID c \<in> set (hasSourceAts tx')" by (simp add: r)
    then show ?thesis using again r(1) by (intro conjI exI[of _ "storedRow newID c"] allI) simp_all
  qed
qed

lemma created_conflicts_with_itself:
  assumes "generateHasSourceAtCreate E tx pkg src m hs = Ok c"
  shows "conflictsWith (conflictColumnsFor m) (conflictWhereFor m) c (storedRow newID c)"
  using generateHasSourceAtCreate_shape[OF assms]
  by (auto simp: conflictsWith_iff split: if_splits)

lemma execUpsert_of_upsert:
  assumes g: "generateHasSourceAtCreate E tx (Some pkg) (Some src) m (Some spec) = Ok c"
    and u: "upsertHasSourceAt E tx newID pkg m src spec = (Ok ident, tx')"
  shows "execUpsertHasSourceAt tx (conflictColumnsFor m) (conflictWhereFor m) newID c = (Ok ident, tx')"
proof -
  obtain r d where e: "execUpsertHasSourceAt tx (conflictColumnsFor m) (conflictWhereFor m) newID c = (r, d)"
    by (cases "execUpsertHasSourceAt tx (conflictColumnsFor m) (conflictWhereFor m) newID c")
  show ?thesis using u e by (cases r) (simp_all add: upsertHasSourceAt_via_insert[OF g])
qed

lemma same_partition_upserts:
  assumes g1: "generateHasSourceAtCreate E tx (Some p1) (Some s) m (Some spec) = Ok c1"
    and u1: "upsertHasSourceAt E tx new1 p1 m s spec = (Ok id1, tx1)"
    and g2: "generateHasSourceAtCreate E tx1 (Some p2) (Some s) m (Some spec) = Ok c2"
    and u2: "upsertHasSourceAt E tx1 new2 p2 m s spec = (Ok id2, tx2)"
  shows "(c2 = c1 \<longrightarrow> id2 = id1 \<and> tx2 = tx1)
       \<and> ((c_AllVersionsID c2, c_PackageVersionID c2) \<noteq> (c_AllVersionsID c1, c_PackageVersionID c1) \<longrightarrow>
            (\<exists>r1 r2. r1 \<in> set (hasSourceAts tx2) \<and> r2 \<in> set (hasSourceAts tx2) \<and> r1 \<noteq> r2
               \<and> hs_ID r1 = id1 \<and> hs_ID r2 = id2
               \<and> c_AllVersionsID r1 = c_AllVersionsID c1
               \<and> c_PackageVersionID r1 = c_PackageVersionID c1
               \<and> c_AllVersionsID r2 = c_AllVersionsID c2
               \<and> c_PackageVersionID r2 = c_PackageVersionID c2))"
proof -
  note e1 = execUpsert_stored_row[OF execUpsert_of_upsert[OF g1 u1]
      created_conflicts_with_itself[OF g1]]
  note e2 = execUpsert_stored_row[OF execUpsert_of_upsert[OF g2 u2]
      created_conflicts_with_itself[OF g2]]
  have sub: "set (hasSourceAts tx1) \<subseteq> set (hasSourceAts tx2)"
    using upsertHasSourceAt_row[OF u2] by simp
  have same: "id2 = id1 \<and> tx2 = tx1" if "c2 = c1"
  proof -
    from e1 have "execUpsertHasSourceAt tx1 (conflictColumnsFor m) (conflictWhereFor m) new2 c1
                    = (Ok id1, tx1)" by blast
    then show ?thesis using execUpsert_of_upsert[OF g2 u2] that by simp
  qed
  have diff: "\<exists>r1 r2. r1 \<in> set (hasSourceAts tx2) \<and> r2 \<in> set (hasSourceAts tx2) \<and> r1 \<noteq> r2
               \<and> hs_ID r1 = id1 \<and> hs_ID r2 = id2
               \<and> c_AllVersionsID r1 = c_AllVersionsID c1
               \<and> c_PackageVersionID r1 = c_PackageVersionID c1
               \<and> c_AllVersionsID r2 = c_AllVersionsID c2
               \<and> c_PackageVersionID r2 = c_PackageVersionID c2"
    if ne: "(c_AllVersionsID c2, c_PackageVersionID c2) \<noteq> (c_AllVersionsID c1, c_PackageVersionID c1)"
  proof -
    from e1 obtain r1 where r1: "r1 \<in> set (hasSourceAts tx1)" "hs_ID r1 = id1"
      "c_AllVersionsID r1 = c_AllVersionsID c1" "c_PackageVersionID r1 = c_PackageVersionID c1"
      by blast
    from e2 obtain r2 where r2: "r2 \<in> set (hasSourceAts tx2)" "hs_ID r2 = id2"
      "c_AllVersionsID r2 = c_AllVersionsID c2" "c_PackageVersionID r2 = c_PackageVersionID c2"
      by blast
    have "r1 \<noteq> r2" using ne r1(3,4) r2(3,4) by auto
    then show ?thesis using r1 r2 sub by blast
  qed
  show ?thesis using same diff by blast
qed

text \<open>
  Claim C2.  A builder \<^verbatim>\<open>generateHasSourceAtCreate\<close> returns has exactly one of the two
  package foreign keys set, \<open>AllVersionsID\<close> for the match type ALL_VERSIONS and
  \<open>PackageVersionID\<close> otherwise; the conflict predicate computed for the match type
  holds of it, every conflict column is set in it, and the conflict predicate of the
  other match type does not hold of it.  Consequently an all-versions upsert followed by a
  specific-version upsert of the same package, source and fields leaves two distinct
  rows, one in each partition, carrying the two identifiers returned; these differ when
  the identifiers of the table were distinct to begin with.

  The conflict columns are the six natural-key columns followed by \<open>package_name_id\<close>
  for ALL_VERSIONS and by \<open>package_version_id\<close> otherwise, and the conflict predicate
  is \<open>package_version_id IS NULL AND package_name_id IS NOT NULL\<close> for ALL_VERSIONS and
  the converse otherwise.  With them a stored row conflicts with a new one exactly when
  both lie in the partition of the match type and agree on the six natural-key columns
  and on the package foreign key of that partition.  Hence, within one match type, a
  second upsert that builds the same row returns the identifier of the first and leaves
  the store as it was, while a second upsert whose package foreign keys differ from those
  of the first leaves two distinct rows, each with the foreign keys and the identifier
  of its own upsert.
\<close>

theorem match_type_partitions:
  "(\<forall>c. generateHasSourceAtCreate E tx pkg src m hs = Ok c \<longrightarrow>
        (if Pkg m = PkgMatchTypeAllVersions
         then c_AllVersionsID c \<noteq> None \<and> c_PackageVersionID c = None
         else c_AllVersionsID c = None \<and> c_PackageVersionID c \<noteq> None)
        \<and> holds (conflictWhereFor m) c
        \<and> list_all (\<lambda>col. columnValue c col \<noteq> SqlNull) (conflictColumnsFor m)
        \<and> (\<forall>m'. Pkg m' \<noteq> Pkg m \<longrightarrow> \<not> holds (conflictWhereFor m') c))
   \<and> (\<forall>id1 tx1 id2 tx2.
        upsertHasSourceAt E tx new1 p \<lparr>Pkg = PkgMatchTypeAllVersions\<rparr> s spec = (Ok id1, tx1) \<longrightarrow>
        upsertHasSourceAt E tx1 new2 p \<lparr>Pkg = PkgMatchTypeSpecificVersion\<rparr> s spec = (Ok id2, tx2) \<longrightarrow>
        (\<exists>r1 r2. r1 \<in> set (hasSourceAts tx2) \<and> r2 \<in> set (hasSourceAts tx2) \<and> r1 \<noteq> r2
            \<and> hs_ID r1 = id1 \<and> hs_ID r2 = id2
            \<and> c_AllVersionsID r1 \<noteq> None \<and> c_PackageVersionID r1 = None
            \<and> c_AllVersionsID r2 = None \<and> c_PackageVersionID r2 \<noteq> None
            \<and> c_Collector r1 = c_Collector r2 \<and> c_Origin r1 = c_Origin r2
            \<and> c_DocumentRef r1 = c_DocumentRef r2 \<and> c_Justification r1 = c_Justification r2
            \<and> c_KnownSince r1 = c_KnownSince r2)
        \<and> (distinct (map hs_ID (hasSourceAts tx)) \<longrightarrow> id1 \<noteq> id2))
   \<and> conflictColumnsFor m =
        [FieldSourceID, FieldJustification, FieldKnownSince, FieldCollector, FieldOrigin,
         FieldDocumentRef,
         if Pkg m = PkgMatchTypeAllVersions then FieldPackageNameID else FieldPackageVersionID]
   \<and> conflictWhereFor m =
        (if Pkg m = PkgMatchTypeAllVersions
         then sql_And (sql_IsNull FieldPackageVersionID) (sql_NotNull FieldPackageNameID)
         else sql_And (sql_NotNull FieldPackageVersionID) (sql_IsNull FieldPackageNameID))
   \<and> (\<forall>c x. conflictsWith (conflictColumnsFor m) (conflictWhereFor m) c x =
          (c_SourceID x = c_SourceID c \<and> c_Justification x = c_Justification c
           \<and> c_KnownSince x = c_KnownSince c \<and> c_Collector x = c_Collector c
           \<and> c_Origin x = c_Origin c \<and> c_DocumentRef x = c_DocumentRef c
           \<and> (if Pkg m = PkgMatchTypeAllVersions
               then c_AllVersionsID x = c_AllVersionsID c \<and> c_AllVersionsID c \<noteq> None
                    \<and> c_PackageVersionID x = None \<and> c_PackageVersionID c = None
               else c_PackageVersionID x = c_PackageVersionID c \<and> c_PackageVersionID c \<noteq> None
                    \<and> c_AllVersionsID x = None \<and> c_AllVersionsID c = None)))
   \<and> (\<forall>p1 p2 c1 c2 id1 tx1 id2 tx2.
        generateHasSourceAtCreate E tx (Some p1) (Some s) m (Some spec) = Ok c1 \<longrightarrow>
        upsertHasSourceAt E tx new1 p1 m s spec = (Ok id1, tx1) \<longrightarrow>
        generateHasSourceAtCreate E tx1 (Some p2) (Some s) m (Some spec) = Ok c2 \<longrightarrow>
        upsertHasSourceAt E tx1 new2 p2 m s spec = (Ok id2, tx2) \<longrightarrow>
        (c2 = c1 \<longrightarrow> id2 = id1 \<and> tx2 = tx1)
        \<and> ((c_AllVersionsID c2, c_PackageVersionID c2) \<noteq> (c_AllVersionsID c1, c_PackageVersionID c1) \<longrightarrow>
            (\<exists>r1 r2. r1 \<in> set (hasSourceAts tx2) \<and> r2 \<in> set (hasSourceAts tx2) \<and> r1 \<noteq> r2
               \<and> hs_ID r1 = id1 \<and> hs_ID r2 = id2
               \<and> c_AllVersionsID r1 = c_AllVersionsID c1
               \<and> c_PackageVersionID r1 = c_PackageVersionID c1
               \<and> c_AllVersionsID r2 = c_AllVersionsID c2
               \<and> c_PackageVersionID r2 = c_PackageVersionID c2)))"
proof -
  have part1: "\<forall>c. generateHasSourceAtCreate E tx pkg src m hs = Ok c \<longrightarrow>
        (if Pkg m = PkgMatchTypeAllVersions
         then c_AllVersionsID c \<noteq> None \<and> c_PackageVersionID c = None
         else c_AllVersionsID c = None \<and> c_PackageVersionID c \<noteq> None)
        \<and> holds (conflictWhereFor m) c
        \<and> list_all (\<lambda>col. columnValue c col \<noteq> SqlNull) (conflictColumnsFor m)
        \<and> (\<forall>m'. Pkg m' \<noteq> Pkg m \<longrightarrow> \<not> holds (conflictWhereFor m') c)"
  proof (intro allI impI conjI)
    fix c assume g: "generateHasSourceAtCreate E tx pkg src m hs = Ok c"
    note shape = generateHasSourceAtCreate_shape[OF g]
    from shape show "if Pkg m = PkgMatchTypeAllVersions
         then c_AllVersionsID c \<noteq> None \<and> c_PackageVersionID c = None
         else c_AllVersionsID c = None \<and> c_PackageVersionID c \<noteq> None" by simp
    from shape show hc: "holds (conflictWhereFor m) c"
      by (simp add: holds_conflictWhereFor split: if_splits)
    from g show "list_all (\<lambda>col. columnValue c col \<noteq> SqlNull) (conflictColumnsFor m)"
      by (rule conflictColumns_set)
    fix m' :: MatchFlags assume "Pkg m' \<noteq> Pkg m"
    then show "\<not> holds (conflictWhereFor m') c"
      using partitions_exclusive[of m m' c] hc by auto
  qed
  have part2: "\<forall>id1 tx1 id2 tx2.
        upsertHasSourceAt E tx new1 p \<lparr>Pkg = PkgMatchTypeAllVersions\<rparr> s spec = (Ok id1, tx1) \<longrightarrow>
        upsertHasSourceAt E tx1 new2 p \<lparr>Pkg = PkgMatchTypeSpecificVersion\<rparr> s spec = (Ok id2, tx2) \<longrightarrow>
        (\<exists>r1 r2. r1 \<in> set (hasSourceAts tx2) \<and> r2 \<in> set (hasSourceAts tx2) \<and> r1 \<noteq> r2
            \<and> hs_ID r1 = id1 \<and> hs_ID r2 = id2
            \<and> c_AllVersionsID r1 \<noteq> None \<and> c_PackageVersionID r1 = None
            \<and> c_AllVersionsID r2 = None \<and> c_PackageVersionID r2 \<noteq> None
            \<and> c_Collector r1 = c_Collector r2 \<and> c_Origin r1 = c_Origin r2
            \<and> c_DocumentRef r1 = c_DocumentRef r2 \<and> c_Justification r1 = c_Justification r2
            \<and> c_KnownSince r1 = c_KnownSince r2)
        \<and> (distinct (map hs_ID (hasSourceAts tx)) \<longrightarrow> id1 \<noteq> id2)"
  proof (intro allI impI conjI)
    fix id1 tx1 id2 tx2
    assume u1: "upsertHasSourceAt E tx new1 p \<lparr>Pkg = PkgMatchTypeAllVersions\<rparr> s spec = (Ok id1, tx1)"
      and u2: "upsertHasSourceAt E tx1 new2 p \<lparr>Pkg = PkgMatchTypeSpecificVersion\<rparr> s spec = (Ok id2, tx2)"
    from upsertHasSourceAt_row[OF u1] obtain r1 where
      r1: "r1 \<in> set (hasSourceAts tx1)" "hs_ID r1 = id1"
          "holds (conflictWhereFor \<lparr>Pkg = PkgMatchTypeAllVersions\<rparr>) r1"
          "c_Collector r1 = hi_Collector spec" "c_Origin r1 = hi_Origin spec"
          "c_DocumentRef r1 = hi_DocumentRef spec" "c_Justification r1 = hi_Justification spec"
          "c_KnownSince r1 = hi_KnownSince spec"
      and d1: "distinct (map hs_ID (hasSourceAts tx)) \<longrightarrow> distinct (map hs_ID (hasSourceAts tx1))"
      by blast
    from upsertHasSourceAt_row[OF u2] obtain r2 where
      r2: "r2 \<in> set (hasSourceAts tx2)" "hs_ID r2 = id2"
          "holds (conflictWhereFor \<lparr>Pkg = PkgMatchTypeSpecificVersion\<rparr>) r2"
          "c_Collector r2 = hi_Collector spec" "c_Origin r2 = hi_Origin spec"
          "c_DocumentRef r2 = hi_DocumentRef spec" "c_Justification r2 = hi_Justification spec"
          "c_KnownSince r2 = hi_KnownSince spec"
      and sub: "set (hasSourceAts tx1) \<subseteq> set (hasSourceAts tx2)"
      and d2: "distinct (map hs_ID (hasSourceAts tx1)) \<longrightarrow> distinct (map hs_ID (hasSourceAts tx2))"
      by blast
    have r1in: "r1 \<in> set (hasSourceAts tx2)" using r1(1) sub by auto
    have s1: "c_AllVersionsID r1 \<noteq> None \<and> c_PackageVersionID r1 = None"
      using r1(3) by (simp add: holds_conflictWhereFor)
    have s2: "c_AllVersionsID r2 = None \<and> c_PackageVersionID r2 \<noteq> None"
      using r2(3) by (simp add: holds_conflictWhereFor)
    have ne: "r1 \<noteq> r2" using s1 s2 by auto
    show "\<exists>r1 r2. r1 \<in> set (hasSourceAts tx2) \<and> r2 \<in> set (hasSourceAts tx2) \<and> r1 \<noteq> r2
            \<and> hs_ID r1 = id1 \<and> hs_ID r2 = id2
            \<and> c_AllVersionsID r1 \<noteq> None \<and> c_PackageVersionID r1 = None
            \<and> c_AllVersionsID r2 = None \<and> c_PackageVersionID r2 \<noteq> None
            \<and> c_Collector r1 = c_Collector r2 \<and> c_Origin r1 = c_Origin r2
            \<and> c_DocumentRef r1 = c_DocumentRef r2 \<and> c_Justification r1 = c_Justification r2
            \<and> c_KnownSince r1 = c_KnownSince r2"
      by (rule exI[of _ r1], rule exI[of _ r2]) (simp add: r1in r2 r1 ne s1 s2)
    assume "distinct (map hs_ID (hasSourceAts tx))"
    then have "distinct (map hs_ID (hasSourceAts tx2))" using d1 d2 by simp
    then have "inj_on hs_ID (set (hasSourceAts tx2))" by (simp add: distinct_map)
    then show "id1 \<noteq> id2" using r1in r2(1) ne r1(2) r2(2) by (auto dest: inj_onD)
  qed
  have part3: "conflictColumnsFor m =
        [FieldSourceID, FieldJustification, FieldKnownSince, FieldCollector, FieldOrigin,
         FieldDocumentRef,
         if Pkg m = PkgMatchTypeAllVersions then FieldPackageNameID else FieldPackageVersionID]"
    by (simp add: conflictColumnsFor_def hasSourceAtConflictColumns_def)
  have part4: "conflictWhereFor m =
        (if Pkg m = PkgMatchTypeAllVersions
         then sql_And (sql_IsNull FieldPackageVersionID) (sql_NotNull FieldPackageNameID)
         else sql_And (sql_NotNull FieldPackageVersionID) (sql_IsNull FieldPackageNameID))"
    by (simp add: conflictWhereFor_def)
  have part5: "\<forall>c x. conflictsWith (conflictColumnsFor m) (conflictWhereFor m) c x =
          (c_SourceID x = c_SourceID c \<and> c_Justification x = c_Justification c
           \<and> c_KnownSince x = c_KnownSince c \<and> c_Collector x = c_Collector c
           \<and> c_Origin x = c_Origin c \<and> c_DocumentRef x = c_DocumentRef c
           \<and> (if Pkg m = PkgMatchTypeAllVersions
               then c_AllVersionsID x = c_AllVersionsID c \<and> c_AllVersionsID c \<noteq> None
                    \<and> c_PackageVersionID x = None \<and> c_PackageVersionID c = None
               else c_PackageVersionID x = c_PackageVersionID c \<and> c_PackageVersionID c \<noteq> None
                    \<and> c_AllVersionsID x = None \<and> c_AllVersionsID c = None))"
    by (intro allI) (rule conflictsWith_iff)
  have part6: "\<forall>p1 p2 c1 c2 id1 tx1 id2 tx2.
        generateHasSourceAtCreate E tx (Some p1) (Some s) m (Some spec) = Ok c1 \<longrightarrow>
        upsertHasSourceAt E tx new1 p1 m s spec = (Ok id1, tx1) \<longrightarrow>
        generateHasSourceAtCreate E tx1 (Some p2) (Some s) m (Some spec) = Ok c2 \<longrightarrow>
        upsertHasSourceAt E tx1 new2 p2 m s spec = (Ok id2, tx2) \<longrightarrow>
        (c2 = c1 \<longrightarrow> id2 = id1 \<and> tx2 = tx1)
        \<and> ((c_AllVersionsID c2, c_PackageVersionID c2) \<noteq> (c_AllVersionsID c1, c_PackageVersionID c1) \<longrightarrow>
            (\<exists>r1 r2. r1 \<in> set (hasSourceAts tx2) \<and> r2 \<in> set (hasSourceAts tx2) \<and> r1 \<noteq> r2
               \<and> hs_ID r1 = id1 \<and> hs_ID r2 = id2
               \<and> c_AllVersionsID r1 = c_AllVersionsID c1
               \<and> c_PackageVersionID r1 = c_PackageVersionID c1
               \<and> c_AllVersionsID r2 = c_AllVersionsID c2
               \<and> c_PackageVersionID r2 = c_PackageVersionID c2))"
    by (intro allI impI) (rule same_partition_upserts)
  from part1 part2 part3 part4 part5 part6 show ?thesis by (intro conjI)
qed

theorem match_type_partitions_witness:
  "generateHasSourceAtCreate sampleEnv sampleDB (Some leftPadInput) (Some padSource)
       \<lparr>Pkg = PkgMatchTypeAllVersions\<rparr> (Some sampleSpec) = Ok avCreate
   \<and> holds (conflictWhereFor \<lparr>Pkg = PkgMatchTypeAllVersions\<rparr>) avCreate
   \<and> \<not> holds (conflictWhereFor \<lparr>Pkg = PkgMatchTypeSpecificVersion\<rparr>) avCreate
   \<and> fst (upsertHasSourceAt sampleEnv sampleDB ''h1'' leftPadInput
            \<lparr>Pkg = PkgMatchTypeAllVersions\<rparr> padSource sampleSpec) = Ok ''h1''
   \<and> fst (upsertHasSourceAt sampleEnv
            (snd (upsertHasSourceAt sampleEnv sampleDB ''h1'' leftPadInput
                    \<lparr>Pkg = PkgMatchTypeAllVersions\<rparr> padSource sampleSpec))
            ''h2'' leftPadInput \<lparr>Pkg = PkgMatchTypeSpecificVersion\<rparr> padSource sampleSpec) = Ok ''h2''
   \<and> (\<exists>r1 r2.
         r1 \<in> set (hasSourceAts (snd (upsertHasSourceAt sampleEnv
                 (snd (upsertHasSourceAt sampleEnv sampleDB ''h1'' leftPadInput
                         \<lparr>Pkg = PkgMatchTypeAllVersions\<rparr> padSource sampleSpec))
                 ''h2'' leftPadInput \<lparr>Pkg = PkgMatchTypeSpecificVersion\<rparr> padSource sampleSpec)))
       \<and> r2 \<in> set (hasSourceAts (snd (upsertHasSourceAt sampleEnv
                 (snd (upsertHasSourceAt sampleEnv sampleDB ''h1'' leftPadInput
                         \<lparr>Pkg = PkgMatchTypeAllVersions\<rparr> padSource sampleSpec))
                 ''h2'' leftPadInput \<lparr>Pkg = PkgMatchTypeSpecificVersion\<rparr> padSource sampleSpec)))
       \<and> r1 \<noteq> r2 \<and> hs_ID r1 = ''h1'' \<and> hs_ID r2 = ''h2'')
   \<and> conflictColumnsFor \<lparr>Pkg = PkgMatchTypeAllVersions\<rparr> =
        [FieldSourceID, FieldJustification, FieldKnownSince, FieldCollector, FieldOrigin,
         FieldDocumentRef, FieldPackageNameID]
   \<and> fst (upsertHasSourceAt sampleEnv twoPkgDB ''h1'' leftPadInput
            \<lparr>Pkg = PkgMatchTypeAllVersions\<rparr> padSource sampleSpec) = Ok ''h1''
   \<and> fst (upsertHasSourceAt sampleEnv
            (snd (upsertHasSourceAt sampleEnv twoPkgDB ''h1'' leftPadInput
                    \<lparr>Pkg = PkgMatchTypeAllVersions\<rparr> padSource sampleSpec))
            ''h2'' rightPadInput \<lparr>Pkg = PkgMatchTypeAllVersions\<rparr> padSource sampleSpec) = Ok ''h2''
   \<and> (\<exists>r1 r2.
         r1 \<in> set (hasSourceAts (snd (upsertHasSourceAt sampleEnv
                 (snd (upsertHasSourceAt sampleEnv twoPkgDB ''h1'' leftPadInput
                         \<lparr>Pkg = PkgMatchTypeAllVersions\<rparr> padSource sampleSpec))
                 ''h2'' rightPadInput \<lparr>Pkg = PkgMatchTypeAllVersions\<rparr> padSource sampleSpec)))
       \<and> r2 \<in> set (hasSourceAts (snd (upsertHasSourceAt sampleEnv
                 (snd (upsertHasSourceAt sampleEnv twoPkgDB ''h1'' leftPadInput
                         \<lparr>Pkg = PkgMatchTypeAllVersions\<rparr> padSource sampleSpec))
                 ''h2'' rightPadInput \<lparr>Pkg = PkgMatchTypeAllVersions\<rparr> padSource sampleSpec)))
       \<and> r1 \<noteq> r2 \<and> hs_ID r1 = ''h1'' \<and> hs_ID r2 = ''h2''
       \<and> c_AllVersionsID r1 = Some ''n1'' \<and> c_AllVersionsID r2 = Some ''n2'')
   \<and> upsertHasSourceAt sampleEnv
        (snd (upsertHasSourceAt sampleEnv twoPkgDB ''h1'' leftPadInput
                \<lparr>Pkg = PkgMatchTypeAllVersions\<rparr> padSource sampleSpec))
        ''h3'' leftPadInput \<lparr>Pkg = PkgMatchTypeAllVersions\<rparr> padSource sampleSpec
      = (Ok ''h1'',
         snd (upsertHasSourceAt sampleEnv twoPkgDB ''h1'' leftPadInput
                \<lparr>Pkg = PkgMatchTypeAllVersions\<rparr> padSource sampleSpec))"
proof -
  let ?av = "\<lparr>Pkg = PkgMatchTypeAllVersions\<rparr>"
  let ?sv = "\<lparr>Pkg = PkgMatchTypeSpecificVersion\<rparr>"
  let ?u1 = "upsertHasSourceAt sampleEnv sampleDB ''h1'' leftPadInput ?av padSource sampleSpec"
  let ?u2 = "upsertHasSourceAt sampleEnv (snd ?u1) ''h2'' leftPadInput ?sv padSource sampleSpec"
  let ?v1 = "upsertHasSourceAt sampleEnv twoPkgDB ''h1'' leftPadInput ?av padSource sampleSpec"
  let ?v2 = "upsertHasSourceAt sampleEnv (snd ?v1) ''h2'' rightPadInput ?av padSource sampleSpec"
  let ?v3 = "upsertHasSourceAt sampleEnv (snd ?v1) ''h3'' leftPadInput ?av padSource sampleSpec"
  let ?c2 = "avCreate\<lparr>c_AllVersionsID := Some ''n2''\<rparr>"
  have g: "generateHasSourceAtCreate sampleEnv sampleDB (Some leftPadInput) (Some padSource)
             ?av (Some sampleSpec) = Ok avCreate"
    by code_simp
  have f1: "fst ?u1 = Ok ''h1''" by code_simp
  have f2: "fst ?u2 = Ok ''h2''" by code_simp
  have u1: "?u1 = (Ok ''h1'', snd ?u1)" using f1 by (metis prod.collapse)
  have u2: "?u2 = (Ok ''h2'', snd ?u2)" using f2 by (metis prod.collapse)
  note mtp = match_type_partitions[of sampleEnv sampleDB "Some leftPadInput" "Some padSource"
      ?av "Some sampleSpec" "''h1''" leftPadInput padSource sampleSpec "''h2''"]
  from mtp g have a: "holds (conflictWhereFor ?av) avCreate"
    and b: "\<forall>m'. Pkg m' \<noteq> Pkg ?av \<longrightarrow> \<not> holds (conflictWhereFor m') avCreate"
    by blast+
  from b have b': "\<not> holds (conflictWhereFor ?sv) avCreate"
    by (metis MatchFlags.select_convs(1) PkgMatchType.distinct(1))
  from mtp u1 u2 have c: "\<exists>r1 r2. r1 \<in> set (hasSourceAts (snd ?u2))
       \<and> r2 \<in> set (hasSourceAts (snd ?u2)) \<and> r1 \<noteq> r2 \<and> hs_ID r1 = ''h1'' \<and> hs_ID r2 = ''h2''"
    by blast
  from mtp have cols: "conflictColumnsFor ?av =
        [FieldSourceID, FieldJustification, FieldKnownSince, FieldCollector, FieldOrigin,
         FieldDocumentRef, FieldPackageNameID]"
    by simp
  note mtq = match_type_partitions[of sampleEnv twoPkgDB "Some leftPadInput" "Some padSource"
      ?av "Some sampleSpec" "''h1''" leftPadInput padSource sampleSpec "''h2''"]
  note mtr = match_type_partitions[of sampleEnv twoPkgDB "Some leftPadInput" "Some padSource"
      ?av "Some sampleSpec" "''h1''" leftPadInput padSource sampleSpec "''h3''"]
  have g1: "generateHasSourceAtCreate sampleEnv twoPkgDB (Some leftPadInput) (Some padSource)
             ?av (Some sampleSpec) = Ok avCreate"
    by code_simp
  have g2: "generateHasSourceAtCreate sampleEnv (snd ?v1) (Some rightPadInput) (Some padSource)
             ?av (Some sampleSpec) = Ok ?c2"
    by code_simp
  have g3: "generateHasSourceAtCreate sampleEnv (snd ?v1) (Some leftPadInput) (Some padSource)
             ?av (Some sampleSpec) = Ok avCreate"
    by code_simp
  have w1: "fst ?v1 = Ok ''h1''" by code_simp
  have w2: "fst ?v2 = Ok ''h2''" by code_simp
  have w3: "fst ?v3 = Ok ''h1''" by code_simp
  have v1: "?v1 = (Ok ''h1'', snd ?v1)" using w1 by (metis prod.collapse)
  have v2: "?v2 = (Ok ''h2'', snd ?v2)" using w2 by (metis prod.collapse)
  have v3: "?v3 = (Ok ''h1'', snd ?v3)" using w3 by (metis prod.collapse)
  have fk: "(c_AllVersionsID ?c2, c_PackageVersionID ?c2)
              \<noteq> (c_AllVersionsID avCreate, c_PackageVersionID avCreate)"
    "c_AllVersionsID avCreate = Some ''n1''" "c_AllVersionsID ?c2 = Some ''n2''"
    by (simp_all add: avCreate_def)
  from mtq g1 v1 g2 v2 fk(1)
  have "\<exists>r1 r2. r1 \<in> set (hasSourceAts (snd ?v2)) \<and> r2 \<in> set (hasSourceAts (snd ?v2)) \<and> r1 \<noteq> r2
               \<and> hs_ID r1 = ''h1'' \<and> hs_ID r2 = ''h2''
               \<and> c_AllVersionsID r1 = c_AllVersionsID avCreate
               \<and> c_PackageVersionID r1 = c_PackageVersionID avCreate
               \<and> c_AllVersionsID r2 = c_AllVersionsID ?c2
               \<and> c_PackageVersionID r2 = c_PackageVersionID ?c2"
    by blast
  then have d: "\<exists>r1 r2. r1 \<in> set (hasSourceAts (snd ?v2)) \<and> r2 \<in> set (hasSourceAts (snd ?v2))
       \<and> r1 \<noteq> r2 \<and> hs_ID r1 = ''h1'' \<and> hs_ID r2 = ''h2''
       \<and> c_AllVersionsID r1 = Some ''n1'' \<and> c_AllVersionsID r2 = Some ''n2''"
    unfolding fk(2,3) by blast
  from mtr g1 v1 g3 v3 have "snd ?v3 = snd ?v1" by blast
  then have e: "?v3 = (Ok ''h1'', snd ?v1)" using v3 by simp
  show ?thesis using g a b' f1 f2 c cols w1 w2 d e by (intro conjI)
qed

subsection \<open>Missing package references\<close>

lemma nil_source_refused:
  "generateHasSourceAtCreate E tx pkg None m hs
     = Err (Errorf ''source must be specified for hasSourceAt'')"
  by (simp add: generateHasSourceAtCreate_def)

lemma nil_package_refused:
  assumes "SourceNameID src = Some g" and "uuid_Parse E (gid_id g) = Some u"
  shows "generateHasSourceAtCreate E tx None (Some src) m (Some h)
           = Err (Errorf ''package must be specified for hasSourceAt'')"
  using assms by (simp add: generateHasSourceAtCreate_def fromGlobalID_def)

text \<open>
  Claim C3.  A nil source and a nil package are refused with an error, as the two lemmas
  above show.  A package input that carries neither an identifier usable for the match type
  nor an embedded natural key is not refused with an invalid-input error: the builder
  dereferences the nil \<^verbatim>\<open>PackageInput\<close> and the call panics.  Nothing is written.
\<close>

theorem unresolved_package_panics:
  "IngestHasSourceAt sampleEnv sampleDB ''h1'' unresolvedPkg \<lparr>Pkg = PkgMatchTypeAllVersions\<rparr>
       padSource sampleSpec
     = (Panic NilPointerDereference, sampleDB)
   \<and> IngestHasSourceAt sampleEnv sampleDB ''h1'' unresolvedPkg \<lparr>Pkg = PkgMatchTypeSpecificVersion\<rparr>
       padSource sampleSpec
     = (Panic NilPointerDereference, sampleDB)"
  by code_simp


subsection \<open>The identifiers of the bulk path\<close>

text \<open>
  Claim C4.  The bulk path stores the record it is given and returns an empty list of
  identifiers, not one identifier per input record.
\<close>

theorem bulk_hasSourceAt_returns_no_ids:
  "fst (IngestHasSourceAts sampleEnv sampleDB (\<lambda>k. ''h1'') [Some leftPadInput]
          (Some \<lparr>Pkg = PkgMatchTypeAllVersions\<rparr>) [Some padSource] [Some sampleSpec]) = Ok []
   \<and> hasSourceAts (snd (IngestHasSourceAts sampleEnv sampleDB (\<lambda>k. ''h1'') [Some leftPadInput]
          (Some \<lparr>Pkg = PkgMatchTypeAllVersions\<rparr>) [Some padSource] [Some sampleSpec]))
       = [storedRow ''h1'' avCreate]"
  by code_simp


subsection \<open>Index accesses of the bulk path\<close>

lemma getSourceNameID_no_panic: "getSourceNameID E tx s \<noteq> Panic p"
  by (simp add: getSourceNameID_def split: list.split)

lemma generateHasSourceAtCreate_panic:
  assumes "generateHasSourceAtCreate E tx pkg src m hs = Panic p"
  shows "p = NilPointerDereference"
  using assms getSourceNameID_no_panic[of E tx]
  by (auto simp: generateHasSourceAtCreate_def Let_def
           split: option.splits result.splits if_splits sum.splits)

lemma generateHasSourceAtCreate_in_range:
  "generateHasSourceAtCreate E tx pkg src m hs \<noteq> Panic IndexOutOfRange"
  using generateHasSourceAtCreate_panic[of E tx pkg src m hs IndexOutOfRange] by auto

lemma hasSourceAtCreates_in_range:
  "index + length hsas \<le> length pkgs \<Longrightarrow> index + length hsas \<le> length sources \<Longrightarrow>
   hasSourceAtCreates E tx pkgs sources m index hsas \<noteq> Panic IndexOutOfRange
   \<and> (\<forall>cs i'. hasSourceAtCreates E tx pkgs sources m index hsas = Ok (cs, i') \<longrightarrow>
         i' = index + length hsas)"
proof (induction hsas arbitrary: index)
  case Nil
  then show ?case by simp
next
  case (Cons hsa hsas)
  have "Suc index + length hsas \<le> length pkgs" "Suc index + length hsas \<le> length sources"
    using Cons.prems by simp_all
  then have ih: "hasSourceAtCreates E tx pkgs sources m (Suc index) hsas \<noteq> Panic IndexOutOfRange
     \<and> (\<forall>cs i'. hasSourceAtCreates E tx pkgs sources m (Suc index) hsas = Ok (cs, i') \<longrightarrow>
           i' = Suc index + length hsas)"
    by (rule Cons.IH)
  have r: "index < length pkgs" "index < length sources" using Cons.prems by simp_all
  show ?case
    using r ih generateHasSourceAtCreate_in_range[of E tx "pkgs ! index" "sources ! index" m hsa]
    by (auto split: result.splits)
qed

lemma batches_in_range:
  "index + length (concat batches) \<le> length pkgs \<Longrightarrow>
   index + length (concat batches) \<le> length sources \<Longrightarrow>
   fst (upsertBulkHasSourceAts_batches E tx fresh pkgs sources m index batches)
     \<noteq> Panic IndexOutOfRange"
proof (induction batches arbitrary: index tx)
  case Nil
  then show ?case by simp
next
  case (Cons hsas batches)
  have a: "index + length hsas \<le> length pkgs" "index + length hsas \<le> length sources"
    using Cons.prems by simp_all
  note cr = hasSourceAtCreates_in_range[OF a, of E tx m]
  show ?case
  proof (cases "hasSourceAtCreates E tx pkgs sources m index hsas")
    case (Ok x)
    obtain cs i' where x: "x = (cs, i')" by (cases x)
    then have i': "i' = index + length hsas" using cr Ok by simp
    obtain eo tx' where ex: "execCreateBulkHasSourceAts tx (conflictColumnsFor m)
        (conflictWhereFor m) fresh index cs = (eo, tx')"
      by (cases "execCreateBulkHasSourceAts tx (conflictColumnsFor m) (conflictWhereFor m) fresh index cs")
    have "fst (upsertBulkHasSourceAts_batches E tx' fresh pkgs sources m i' batches)
            \<noteq> Panic IndexOutOfRange"
      using Cons.IH[of i' tx'] Cons.prems i' by simp
    then show ?thesis using Ok x ex by (cases eo) simp_all
  next
    case (Err e)
    then show ?thesis by simp
  next
    case (Panic p)
    then show ?thesis using cr by auto
  qed
qed

text \<open>
  Claim C9.  When \<open>pkgs\<close> and \<open>sources\<close> are each at least as long as the list of
  records, no index access of the bulk path is out of range, in any chunk and whatever
  the batch size: the call never ends in an index-out-of-range panic.
\<close>

theorem bulk_index_in_bounds:
  assumes "length hasSourceAts' \<le> length pkgs" and "length hasSourceAts' \<le> length sources"
  shows "fst (upsertBulkHasSourceAts E tx fresh pkgs pkgMatchType sources hasSourceAts')
           \<noteq> Panic IndexOutOfRange
       \<and> fst (IngestHasSourceAts E tx fresh pkgs pkgMatchType sources hasSourceAts')
           \<noteq> Panic IndexOutOfRange"
proof -
  have u: "fst (upsertBulkHasSourceAts E tx fresh pkgs pkgMatchType sources hasSourceAts')
           \<noteq> Panic IndexOutOfRange"
  proof (cases pkgMatchType)
    case None
    then show ?thesis by (simp add: upsertBulkHasSourceAts_def)
  next
    case (Some m)
    show ?thesis
    proof (cases "MaxBatchSize E = 0")
      case True
      then show ?thesis using Some by (simp add: upsertBulkHasSourceAts_def chunk_def)
    next
      case False
      then have cc: "concat (chunks_of (MaxBatchSize E) hasSourceAts') = hasSourceAts'"
        by (simp add: chunks_of_concat)
      have "fst (upsertBulkHasSourceAts_batches E tx fresh pkgs sources m 0
                   (chunks_of (MaxBatchSize E) hasSourceAts')) \<noteq> Panic IndexOutOfRange"
        using batches_in_range[of 0 "chunks_of (MaxBatchSize E) hasSourceAts'" pkgs sources]
          assms cc by simp
      then show ?thesis
        using Some False
        by (cases "upsertBulkHasSourceAts_batches E tx fresh pkgs sources m 0
                     (chunks_of (MaxBatchSize E) hasSourceAts')")
           (auto simp: upsertBulkHasSourceAts_def chunk_def split: result.splits)
    qed
  qed
  then show ?thesis
    by (cases "upsertBulkHasSourceAts E tx fresh pkgs pkgMatchType sources hasSourceAts'")
       (auto simp: IngestHasSourceAts_def WithinTX_def split: result.splits)
qed

theorem bulk_index_in_bounds_witness:
  "length [Some sampleSpec, Some sampleSpec, Some sampleSpec]
     \<le> length [Some leftPadInput, Some leftPadInput, Some leftPadInput]
   \<and> length [Some sampleSpec, Some sampleSpec, Some sampleSpec]
     \<le> length [Some padSource, Some padSource, Some padSource, Some padSource]
   \<and> fst (upsertBulkHasSourceAts sampleEnv sampleDB (\<lambda>k. ''h1'')
            [Some leftPadInput, Some leftPadInput, Some leftPadInput]
            (Some \<lparr>Pkg = PkgMatchTypeSpecificVersion\<rparr>)
            [Some padSource, Some padSource, Some padSource, Some padSource]
            [Some sampleSpec, Some sampleSpec, Some sampleSpec]) \<noteq> Panic IndexOutOfRange
   \<and> fst (IngestHasSourceAts sampleEnv sampleDB (\<lambda>k. ''h1'')
            [Some leftPadInput, Some leftPadInput, Some leftPadInput]
            (Some \<lparr>Pkg = PkgMatchTypeSpecificVersion\<rparr>)
            [Some padSource, Some padSource, Some padSource, Some padSource]
            [Some sampleSpec, Some sampleSpec, Some sampleSpec]) \<noteq> Panic IndexOutOfRange"
proof -
  have h1: "length [Some sampleSpec, Some sampleSpec, Some sampleSpec]
     \<le> length [Some leftPadInput, Some leftPadInput, Some leftPadInput]" by simp
  have h2: "length [Some sampleSpec, Some sampleSpec, Some sampleSpec]
     \<le> length [Some padSource, Some padSource, Some padSource, Some padSource]" by simp
  show ?thesis
    using bulk_index_in_bounds[OF h1 h2, of sampleEnv sampleDB "\<lambda>k. ''h1''"
        "Some \<lparr>Pkg = PkgMatchTypeSpecificVersion\<rparr>"] h1 h2
    by blast
qed

lemma bulk_short_slices_panic:
  "fst (upsertBulkHasSourceAts sampleEnv sampleDB (\<lambda>k. ''h1'')
          [Some leftPadInput, Some leftPadInput]
          (Some \<lparr>Pkg = PkgMatchTypeSpecificVersion\<rparr>)
          [Some padSource, Some padSource, Some padSource]
          [Some sampleSpec, Some sampleSpec, Some sampleSpec]) = Panic IndexOutOfRange
   \<and> fst (upsertBulkHasSourceAts sampleEnv sampleDB (\<lambda>k. ''h1'')
          [Some leftPadInput, Some leftPadInput, Some leftPadInput]
          (Some \<lparr>Pkg = PkgMatchTypeSpecificVersion\<rparr>)
          [Some padSource, Some padSource, Some padSource]
          [Some sampleSpec, Some sampleSpec, Some sampleSpec]) = Ok []"
  by code_simp


subsection \<open>The KnownSince filter\<close>

text \<open>
  A record known since instant 7 satisfies the empty filter and is not admitted by the
  filter whose only field is KnownSince = 5, although 7 is not before 5.
\<close>

theorem knownSince_is_equality_counterexample:
  "hf_KnownSince (emptyHasSourceAtSpec\<lparr>hf_KnownSince := Some 5\<rparr>) = Some 5
   \<and> 5 \<le> c_KnownSince row7
   \<and> hasSourceAtQuery sampleEnv emptyHasSourceAtSpec sampleDB row7
   \<and> \<not> hasSourceAtQuery sampleEnv (emptyHasSourceAtSpec\<lparr>hf_KnownSince := Some 5\<rparr>) sampleDB row7"
  by (simp add: row7_def avCreate_def storedRow_def hasSourceAtQuery_def emptyHasSourceAtSpec_def
        optionalPredicate_def)

text \<open>
  Claim C5, as amended.  A filter with KnownSince set admits exactly the records whose
  knownSince timestamp equals the filter value, among those the rest of the filter
  admits: the constraint is an equality.  With KnownSince unset the predicate does not
  depend on the timestamp of the record.
\<close>

theorem knownSince_is_equality:
  "(hf_KnownSince f = Some t \<longrightarrow>
      hasSourceAtQuery E f d r =
        (c_KnownSince r = t \<and> hasSourceAtQuery E (f\<lparr>hf_KnownSince := None\<rparr>) d r))
   \<and> hasSourceAtQuery E (f\<lparr>hf_KnownSince := None\<rparr>) d (r\<lparr>c_KnownSince := t'\<rparr>)
       = hasSourceAtQuery E (f\<lparr>hf_KnownSince := None\<rparr>) d r"
  by (auto simp: hasSourceAtQuery_def optionalPredicate_def allVersionsOf_def
        packageVersionOf_def sourceOf_def split: option.splits)

theorem knownSince_is_equality_witness:
  "hf_KnownSince (emptyHasSourceAtSpec\<lparr>hf_KnownSince := Some 7\<rparr>) = Some 7
   \<and> c_KnownSince row7 = 7
   \<and> hasSourceAtQuery sampleEnv (emptyHasSourceAtSpec\<lparr>hf_KnownSince := Some 7\<rparr>) sampleDB row7
   \<and> hasSourceAtQuery sampleEnv emptyHasSourceAtSpec sampleDB (row7\<lparr>c_KnownSince := 9\<rparr>)"
proof -
  let ?f = "emptyHasSourceAtSpec\<lparr>hf_KnownSince := Some 7\<rparr>"
  have h: "hf_KnownSince ?f = Some 7" by simp
  have k: "c_KnownSince row7 = 7" by (simp add: row7_def avCreate_def storedRow_def)
  have n: "?f\<lparr>hf_KnownSince := None\<rparr> = emptyHasSourceAtSpec"
    by (simp add: emptyHasSourceAtSpec_def)
  have e: "hasSourceAtQuery sampleEnv emptyHasSourceAtSpec sampleDB row7"
    by (simp add: hasSourceAtQuery_def emptyHasSourceAtSpec_def optionalPredicate_def)
  from knownSince_is_equality[of ?f 7 sampleEnv sampleDB row7 9] h k e
  show ?thesis by (simp add: n)
qed

subsection \<open>The shape of a projected package\<close>

text \<open>
  Claim C6.  The projection of a HasSourceAt record rebuilds the package as a type with a
  single namespace holding a single name.  For a record bound to a package version (whose
  name is loaded) the name lists exactly that version; for a record bound to a package
  name the list of versions is empty.
\<close>

theorem projection_shape:
  "(hs_Edges_PackageVersion r = Some pv \<longrightarrow> pv_Edges_Name pv = Some pn \<longrightarrow>
      (\<exists>m. toModelHasSourceAt r = Ok m
         \<and> hm_Package m =
             Some \<lparr> mp_ID = toGlobalID pkgTypeString (pn_ID pn), mp_Type = pn_Type pn,
                    mp_Namespaces =
                      [\<lparr> mpns_ID = toGlobalID pkgNamespaceString (pn_ID pn),
                         mpns_Namespace = pn_Namespace pn,
                         mpns_Names =
                           [\<lparr> mpn_ID = toGlobalID packagename_Table (pn_ID pn),
                              mpn_Name = pn_Name pn,
                              mpn_Versions = [toModelPackageVersion pv] \<rparr>] \<rparr>] \<rparr>))
   \<and> (hs_Edges_PackageVersion r = None \<longrightarrow> hs_Edges_AllVersions r = Some pn \<longrightarrow>
      (\<exists>m. toModelHasSourceAt r = Ok m
         \<and> hm_Package m =
             Some \<lparr> mp_ID = toGlobalID pkgTypeString (pn_ID pn), mp_Type = pn_Type pn,
                    mp_Namespaces =
                      [\<lparr> mpns_ID = toGlobalID pkgNamespaceString (pn_ID pn),
                         mpns_Namespace = pn_Namespace pn,
                         mpns_Names =
                           [\<lparr> mpn_ID = toGlobalID packagename_Table (pn_ID pn),
                              mpn_Name = pn_Name pn,
                              mpn_Versions = [] \<rparr>] \<rparr>] \<rparr>))"
  by (simp add: toModelHasSourceAt_def toModelPackage_def backReferencePackageVersion_def
        backReferencePackageName_def)


theorem projection_shape_witness:
  "hs_Edges_PackageVersion svRecord =
       Some (PackageVersionEnt ''v1'' ''n1'' ''1.3.0'' [] [] (Some leftPad))
   \<and> (\<exists>m. toModelHasSourceAt svRecord = Ok m
         \<and> hm_Package m =
             Some \<lparr> mp_ID = GlobalID ''pkgType'' ''n1'', mp_Type = ''npm'',
                    mp_Namespaces =
                      [\<lparr> mpns_ID = GlobalID ''pkgNamespace'' ''n1'', mpns_Namespace = [],
                         mpns_Names =
                           [\<lparr> mpn_ID = GlobalID ''package_names'' ''n1'', mpn_Name = ''left-pad'',
                              mpn_Versions =
                                [\<lparr> mpv_ID = GlobalID ''package_versions'' ''v1'',
                                   mpv_Version = ''1.3.0'', mpv_Qualifiers = [],
                                   mpv_Subpath = [] \<rparr>] \<rparr>] \<rparr>] \<rparr>)
   \<and> hs_Edges_PackageVersion avRecord = None
   \<and> hs_Edges_AllVersions avRecord = Some leftPad
   \<and> (\<exists>m. toModelHasSourceAt avRecord = Ok m
         \<and> hm_Package m =
             Some \<lparr> mp_ID = GlobalID ''pkgType'' ''n1'', mp_Type = ''npm'',
                    mp_Namespaces =
                      [\<lparr> mpns_ID = GlobalID ''pkgNamespace'' ''n1'', mpns_Namespace = [],
                         mpns_Names =
                           [\<lparr> mpn_ID = GlobalID ''package_names'' ''n1'', mpn_Name = ''left-pad'',
                              mpn_Versions = [] \<rparr>] \<rparr>] \<rparr>)"
proof -
  let ?pv = "PackageVersionEnt ''v1'' ''n1'' ''1.3.0'' [] [] (Some leftPad)"
  have sv: "hs_Edges_PackageVersion svRecord = Some ?pv" by code_simp
  have nm: "pv_Edges_Name ?pv = Some leftPad" by simp
  have av1: "hs_Edges_PackageVersion avRecord = None" by code_simp
  have av2: "hs_Edges_AllVersions avRecord = Some leftPad" by code_simp
  from projection_shape[of svRecord ?pv leftPad] sv nm
  have a: "\<exists>m. toModelHasSourceAt svRecord = Ok m
         \<and> hm_Package m =
             Some \<lparr> mp_ID = toGlobalID pkgTypeString (pn_ID leftPad), mp_Type = pn_Type leftPad,
                    mp_Namespaces =
                      [\<lparr> mpns_ID = toGlobalID pkgNamespaceString (pn_ID leftPad),
                         mpns_Namespace = pn_Namespace leftPad,
                         mpns_Names =
                           [\<lparr> mpn_ID = toGlobalID packagename_Table (pn_ID leftPad),
                              mpn_Name = pn_Name leftPad,
                              mpn_Versions = [toModelPackageVersion ?pv] \<rparr>] \<rparr>] \<rparr>"
    by blast
  from projection_shape[of avRecord ?pv leftPad] av1 av2
  have b: "\<exists>m. toModelHasSourceAt avRecord = Ok m
         \<and> hm_Package m =
             Some \<lparr> mp_ID = toGlobalID pkgTypeString (pn_ID leftPad), mp_Type = pn_Type leftPad,
                    mp_Namespaces =
                      [\<lparr> mpns_ID = toGlobalID pkgNamespaceString (pn_ID leftPad),
                         mpns_Namespace = pn_Namespace leftPad,
                         mpns_Names =
                           [\<lparr> mpn_ID = toGlobalID packagename_Table (pn_ID leftPad),
                              mpn_Name = pn_Name leftPad,
                              mpn_Versions = [] \<rparr>] \<rparr>] \<rparr>"
    by blast
  have ev: "toGlobalID pkgTypeString (pn_ID leftPad) = GlobalID ''pkgType'' ''n1''"
    "toGlobalID pkgNamespaceString (pn_ID leftPad) = GlobalID ''pkgNamespace'' ''n1''"
    "toGlobalID packagename_Table (pn_ID leftPad) = GlobalID ''package_names'' ''n1''"
    "pn_Type leftPad = ''npm''" "pn_Namespace leftPad = []" "pn_Name leftPad = ''left-pad''"
    "toModelPackageVersion ?pv =
       \<lparr> mpv_ID = GlobalID ''package_versions'' ''v1'', mpv_Version = ''1.3.0'',
         mpv_Qualifiers = [], mpv_Subpath = [] \<rparr>"
    by (simp_all add: toGlobalID_def pkgTypeString_def pkgNamespaceString_def packagename_Table_def
          packageversion_Table_def leftPad_def toModelPackageVersion_def)
  show ?thesis using sv av1 av2 a b unfolding ev by blast
qed

subsection \<open>The page size\<close>

lemma collect_Ok:
  "list_all (\<lambda>x. \<exists>y. f x = Ok y) xs \<Longrightarrow> \<exists>ys. collect xs f = Ok ys \<and> length ys = length xs"
  by (induction xs) auto

lemma collect_length: "collect xs f = Ok ys \<Longrightarrow> length ys = length xs"
  by (induction xs arbitrary: ys) (auto split: result.splits)

lemma toModelHasSourceAt_loaded:
  "hasPackageEdge d r \<Longrightarrow> \<exists>m. toModelHasSourceAt (getHasSourceAtObject d r) = Ok m"
  by (cases "packageVersionOf d r")
     (auto simp: hasPackageEdge_def toModelHasSourceAt_def getHasSourceAtObject_def
        toModelPackage_def backReferencePackageName_def)

text \<open>
  Claim C7.  Whatever the filter, a list that \<^verbatim>\<open>HasSourceAt\<close> or \<^verbatim>\<open>Sources\<close> returns has
  as many records as match, cut at \<open>MaxPageSize\<close>; exceeding the cap is no error: on an
  available store \<^verbatim>\<open>Sources\<close> always returns, and so does \<^verbatim>\<open>HasSourceAt\<close> when
  every stored row points to its package.
\<close>

theorem page_size_cap:
  "(\<forall>rs. HasSourceAt E b f = Ok rs \<longrightarrow>
       length rs = min (MaxPageSize E)
         (length (filter (hasSourceAtQuery E (case f of None \<Rightarrow> emptyHasSourceAtSpec | Some x \<Rightarrow> x) b)
                    (hasSourceAts b))))
   \<and> (\<forall>ss. Sources E b g = Ok ss \<longrightarrow>
       length ss = min (MaxPageSize E)
         (length (filter (sourceQuery E (case g of None \<Rightarrow> emptySourceSpec | Some x \<Rightarrow> x))
                    (sourceNames b))))
   \<and> (\<not> unavailable b \<longrightarrow> (\<exists>ss. Sources E b g = Ok ss))
   \<and> (\<not> unavailable b \<longrightarrow> list_all (hasPackageEdge b) (hasSourceAts b) \<longrightarrow>
        (\<exists>rs. HasSourceAt E b f = Ok rs))"
proof (intro conjI allI impI)
  fix rs assume "HasSourceAt E b f = Ok rs"
  then show "length rs = min (MaxPageSize E)
         (length (filter (hasSourceAtQuery E (case f of None \<Rightarrow> emptyHasSourceAtSpec | Some x \<Rightarrow> x) b)
                    (hasSourceAts b)))"
    by (auto simp: HasSourceAt_def HasSourceAt_records_def Let_def min_def
             dest!: collect_length split: if_splits)
next
  fix ss assume "Sources E b g = Ok ss"
  then show "length ss = min (MaxPageSize E)
         (length (filter (sourceQuery E (case g of None \<Rightarrow> emptySourceSpec | Some x \<Rightarrow> x))
                    (sourceNames b)))"
    by (auto simp: Sources_def Sources_records_def Let_def min_def
             dest!: collect_length split: if_splits)
next
  assume "\<not> unavailable b"
  then show "\<exists>ss. Sources E b g = Ok ss"
    using collect_Ok[of "\<lambda>r. Ok (toModelSourceName (Some r))"
        "Sources_records E b (case g of None \<Rightarrow> emptySourceSpec | Some x \<Rightarrow> x)"]
    by (auto simp: Sources_def Let_def list_all_iff)
next
  assume a: "\<not> unavailable b" and i: "list_all (hasPackageEdge b) (hasSourceAts b)"
  let ?f = "case f of None \<Rightarrow> emptyHasSourceAtSpec | Some x \<Rightarrow> x"
  have "list_all (\<lambda>x. \<exists>y. toModelHasSourceAt x = Ok y) (HasSourceAt_records E b ?f)"
    using i toModelHasSourceAt_loaded[of b]
    by (auto simp: HasSourceAt_records_def list_all_iff dest: in_set_takeD)
  from collect_Ok[OF this] show "\<exists>rs. HasSourceAt E b f = Ok rs"
    using a by (auto simp: HasSourceAt_def Let_def)
qed

theorem page_size_cap_witness:
  "\<not> unavailable bigDB
   \<and> list_all (hasPackageEdge bigDB) (hasSourceAts bigDB)
   \<and> MaxPageSize sampleEnv = 2
   \<and> length (filter (hasSourceAtQuery sampleEnv emptyHasSourceAtSpec bigDB) (hasSourceAts bigDB)) = 3
   \<and> length (filter (sourceQuery sampleEnv emptySourceSpec) (sourceNames bigDB)) = 3
   \<and> (\<exists>rs. HasSourceAt sampleEnv bigDB None = Ok rs \<and> length rs = 2)
   \<and> (\<exists>ss. Sources sampleEnv bigDB None = Ok ss \<and> length ss = 2)"
proof -
  have h1: "\<not> unavailable bigDB" by code_simp
  have h2: "list_all (hasPackageEdge bigDB) (hasSourceAts bigDB)" by code_simp
  have p: "MaxPageSize sampleEnv = 2" by (simp add: sampleEnv_def)
  have n1: "length (filter (hasSourceAtQuery sampleEnv emptyHasSourceAtSpec bigDB) (hasSourceAts bigDB)) = 3"
    by code_simp
  have n2: "length (filter (sourceQuery sampleEnv emptySourceSpec) (sourceNames bigDB)) = 3"
    by code_simp
  note cap = page_size_cap[of sampleEnv bigDB None None]
  from cap h1 h2 obtain rs where rs: "HasSourceAt sampleEnv bigDB None = Ok rs" by blast
  from cap h1 obtain ss where ss: "Sources sampleEnv bigDB None = Ok ss" by blast
  from cap rs have "length rs = min (MaxPageSize sampleEnv)
      (length (filter (hasSourceAtQuery sampleEnv emptyHasSourceAtSpec bigDB) (hasSourceAts bigDB)))"
    by simp
  then have l1: "length rs = 2" by (simp add: p n1)
  from cap ss have "length ss = min (MaxPageSize sampleEnv)
      (length (filter (sourceQuery sampleEnv emptySourceSpec) (sourceNames bigDB)))"
    by simp
  then have l2: "length ss = 2" by (simp add: p n2)
  show ?thesis using h1 h2 p n1 n2 rs ss l1 l2 by blast
qed

subsection \<open>Certification edges\<close>

text \<open>
  Claim C10.  Asked for both the CertifyBad and the CertifyGood edges of a source name
  that has one certification of each type, \<^verbatim>\<open>srcNameNeighbors\<close> returns the good one
  only: the second \<^verbatim>\<open>WithCertification\<close> replaces the loader of the first.  Asked for
  CertifyBad alone it returns the bad one.
\<close>

theorem good_certifications_displace_bad:
  "srcNameNeighbors sampleEnv sampleDB (GlobalID sourcename_Table ''s1'')
       (\<lambda>e. e = EdgeSourceCertifyBad \<or> e = EdgeSourceCertifyGood)
     = Ok [Node_CertifyGood \<lparr> cert_ID = ''c2'', cert_SourceID = Some ''s1'', cert_Type = TypeGOOD,
                              cert_Justification = ''good'' \<rparr>]
   \<and> srcNameNeighbors sampleEnv sampleDB (GlobalID sourcename_Table ''s1'')
       (\<lambda>e. e = EdgeSourceCertifyBad)
     = Ok [Node_CertifyBad \<lparr> cert_ID = ''c1'', cert_SourceID = Some ''s1'', cert_Type = TypeBAD,
                             cert_Justification = ''bad'' \<rparr>]"
  by code_simp

end
